theory Spec2Isabelle
  imports Complex_Main
begin

section \<open>Strings\<close>

text \<open>
  A JavaScript string is modelled by the list of its code units, restricted to the code
  units below 256 that an Isabelle \<^typ>\<open>char\<close> can hold. \<open>String.prototype.trim\<close>
  removes white space and line terminators from both ends; below 256 these are the
  code units 9 to 13, 32 and 160.
\<close>

definition nl :: char where
  "nl = char_of (10 :: nat)"

definition is_ws :: "char \<Rightarrow> bool" where
  "is_ws c = (of_char c \<in> {9, 10, 11, 12, 13, 32, 160 :: nat})"

definition trim :: "string \<Rightarrow> string" where
  "trim s = rev (dropWhile is_ws (rev (dropWhile is_ws s)))"

text \<open>The decimal text of a non-negative integer, as a template literal prints it.\<close>

fun decimal :: "nat \<Rightarrow> string" where
  "decimal n =
     (if n < 10 then [char_of (48 + n)]
      else decimal (n div 10) @ [char_of (48 + n mod 10)])"

declare decimal.simps [simp del]

section \<open>Parsed JSON and the dynamic operations used on it\<close>

text \<open>
  The value that \<open>response.json()\<close> resolves to. An object keeps its members in the
  order of the text; a repeated name is read from its last occurrence. Of a number only
  its being zero is observed by the code.
\<close>

datatype json =
    JNull
  | JBool bool
  | JNum rat
  | JStr string
  | JArr "json list"
  | JObj "(string \<times> json) list"

text \<open>A JavaScript value is a parsed JSON value or \<open>undefined\<close> (\<open>None\<close>).\<close>

type_synonym jsval = "json option"

fun truthy :: "jsval \<Rightarrow> bool" where
  "truthy None = False"
| "truthy (Some JNull) = False"
| "truthy (Some (JBool b)) = b"
| "truthy (Some (JNum n)) = (n \<noteq> 0)"
| "truthy (Some (JStr s)) = (s \<noteq> [])"
| "truthy (Some (JArr xs)) = True"
| "truthy (Some (JObj fs)) = True"

text \<open>
  \<open>v.name\<close> on a value that is neither \<open>null\<close> nor \<open>undefined\<close>, for the member
  names the code reads (\<open>error\<close>, \<open>message\<close>, \<open>choices\<close>, \<open>content\<close>): only an object
  can have such a member.
\<close>

fun property :: "string \<Rightarrow> json \<Rightarrow> jsval" where
  "property name (JObj fs) = map_of (rev fs) name"
| "property name v = None"

text \<open>\<open>v[0]\<close> on a value that is neither \<open>null\<close> nor \<open>undefined\<close>.\<close>

fun index0 :: "json \<Rightarrow> jsval" where
  "index0 (JArr []) = None"
| "index0 (JArr (x # xs)) = Some x"
| "index0 (JStr []) = None"
| "index0 (JStr (c # cs)) = Some (JStr [c])"
| "index0 (JObj fs) = map_of (rev fs) ''0''"
| "index0 v = None"

text \<open>Optional chaining: \<open>v?.name\<close> and \<open>v?.[0]\<close> are \<open>undefined\<close> on \<open>null\<close> and \<open>undefined\<close>.\<close>

fun opt_property :: "string \<Rightarrow> jsval \<Rightarrow> jsval" where
  "opt_property name None = None"
| "opt_property name (Some JNull) = None"
| "opt_property name (Some v) = property name v"

fun opt_index0 :: "jsval \<Rightarrow> jsval" where
  "opt_index0 None = None"
| "opt_index0 (Some JNull) = None"
| "opt_index0 (Some v) = index0 v"

text \<open>\<open>a || b\<close> where \<open>b\<close> is a string literal.\<close>

fun or_else :: "jsval \<Rightarrow> string \<Rightarrow> json" where
  "or_else None d = JStr d"
| "or_else (Some v) d = (if truthy (Some v) then v else JStr d)"

section \<open>Thrown values\<close>

text \<open>
  \<open>Error m\<close> is an \<open>Error\<close> object made by the code with \<open>new Error(m)\<close>; it has a
  message and nothing else. A \<open>Fault\<close> is an error raised by the runtime itself.
\<close>

datatype fault =
    FetchRejected
  | JsonRejected
  | NullProperty
  | NotAFunction

datatype thrown =
    Error string
  | Fault fault

section \<open>The remote generation API\<close>

record request =
  url :: string
  authorization :: string
  model :: string
  content :: string
  temperature :: rat

text \<open>
  A response: its status line and what \<open>response.json()\<close> gives (\<open>None\<close> when the
  body is not JSON and the call rejects).
\<close>

record response =
  status :: nat
  statusText :: string
  body :: "json option"

definition ok :: "response \<Rightarrow> bool" where
  "ok r = (200 \<le> status r \<and> status r \<le> 299)"

text \<open>
  The runtime, as far as \<open>callGroq\<close> depends on it: \<open>fetch\<close> answers a request or
  rejects (\<open>None\<close>); \<open>faultText\<close> is the message of a runtime error; \<open>toText\<close> is the
  conversion to a string that \<open>new Error(v)\<close> applies to a value \<open>v\<close> that is not a
  string.
\<close>

record runtime =
  fetch :: "request \<Rightarrow> response option"
  faultText :: "fault \<Rightarrow> string"
  toText :: "json \<Rightarrow> string"

fun messageOf :: "('a runtime_scheme) \<Rightarrow> thrown \<Rightarrow> string" where
  "messageOf h (Error m) = m"
| "messageOf h (Fault f) = faultText h f"

definition newError :: "('a runtime_scheme) \<Rightarrow> json \<Rightarrow> thrown" where
  "newError h v = (case v of JStr s \<Rightarrow> Error s | _ \<Rightarrow> Error (toText h v))"

definition prompt :: "string \<Rightarrow> string" where
  "prompt diff =
     [nl] @
     ''      You are a senior software architect. Analyze the FOLLOWING code changes deeply and generate a professional Git commit message.'' @ [nl] @
     [nl] @
     ''      GOAL: Provide a readable, insightful, and sufficiently descriptive commit message. '' @ [nl] @
     [nl] @
     ''      INSTRUCTIONS:'' @ [nl] @
     ''      - Use \"Conventional Commits\" (<type>(<scope>): <subject>).'' @ [nl] @
     ''      - Types: feat, fix, refactor, chore, docs, style, test, ci, build.'' @ [nl] @
     ''      - Scope: The scope of the change (e.g., \"lang\", \"navbar\", \"profile\", \"auth\").'' @ [nl] @
     ''      - Subject: Summarize the change clearly. Do not over-summarize; provide enough context to understand WHAT changed and WHY.'' @ [nl] @
     ''      - Body (Optional): If the changes are significant, add a short body (1-2 sentences) after a blank line. Use bullet points for lists.'' @ [nl] @
     ''      - Output: Return ONLY raw text. No markdown, no backticks, no meta-explanation.'' @ [nl] @
     [nl] @
     ''      CHANGES TO ANALYZE:'' @ [nl] @
     ''      '' @ diff @ [nl] @
     ''    ''"

definition groqRequest :: "string \<Rightarrow> string \<Rightarrow> request" where
  "groqRequest apiKey diff =
     \<lparr> url = ''https://api.groq.com/openai/v1/chat/completions'',
       authorization = ''Bearer '' @ apiKey,
       model = ''openai/gpt-oss-120b'',
       content = prompt diff,
       temperature = 1 / 2 \<rparr>"

text \<open>\<open>x.error?.message\<close> on a body \<open>x\<close> that is not \<open>null\<close>.\<close>

definition errorMessageOf :: "json \<Rightarrow> jsval" where
  "errorMessageOf x = opt_property ''message'' (property ''error'' x)"

text \<open>\<open>data.choices?.[0]?.message?.content\<close> on a body \<open>data\<close> that is not \<open>null\<close>.\<close>

definition contentOf :: "json \<Rightarrow> jsval" where
  "contentOf data =
     opt_property ''content'' (opt_property ''message'' (opt_index0 (property ''choices'' data)))"

text \<open>
  Lines 351 to 362 of \<open>callGroq\<close>: the response is not \<open>ok\<close>. A body that is not JSON
  and a body that is \<open>null\<close> both raise inside the inner \<open>try\<close>, which ignores it.
\<close>

definition notOk :: "('a runtime_scheme) \<Rightarrow> response \<Rightarrow> thrown" where
  "notOk h r =
     (let errorMessage = ''HTTP '' @ decimal (status r) @ '': '' @ statusText r in
      case body r of
        None \<Rightarrow> Error errorMessage
      | Some JNull \<Rightarrow> Error errorMessage
      | Some errorData \<Rightarrow> newError h (or_else (errorMessageOf errorData) errorMessage))"

text \<open>
  Lines 364 to 375 of \<open>callGroq\<close>: the response is \<open>ok\<close>. Here nothing catches what
  the runtime raises: a body that is not JSON, a body that is \<open>null\<close>, a \<open>content\<close>
  that has no \<open>trim\<close>.
\<close>

definition okResponse :: "('a runtime_scheme) \<Rightarrow> response \<Rightarrow> thrown + string" where
  "okResponse h r =
     (case body r of
        None \<Rightarrow> Inl (Fault JsonRejected)
      | Some JNull \<Rightarrow> Inl (Fault NullProperty)
      | Some data \<Rightarrow>
          (if truthy (property ''error'' data) then
             Inl (newError h (or_else (errorMessageOf data) ''API returned an error.''))
           else
             (case contentOf data of
                None \<Rightarrow> Inl (Error ''API returned empty response.'')
              | Some JNull \<Rightarrow> Inl (Error ''API returned empty response.'')
              | Some (JStr text) \<Rightarrow>
                  (if trim text = [] then Inl (Error ''API returned empty response.'')
                   else Inr (trim text))
              | Some v \<Rightarrow> Inl (Fault NotAFunction))))"

definition handleResponse :: "('a runtime_scheme) \<Rightarrow> response \<Rightarrow> thrown + string" where
  "handleResponse h r = (if \<not> ok r then Inl (notOk h r) else okResponse h r)"

section \<open>The editor, the secret store and the version-control provider\<close>

datatype context_value =
    CBool bool
  | CNum int

datatype webview_message =
    Loading
  | Result string
  | ErrorMessage string
  | Success

text \<open>
  What an invocation does to the outside, in the order it does it: notifications,
  messages posted to the panel, context keys, timers, and the calls to the secret
  store, the provider and the remote API. \<open>SecretStore v\<close> is a write of \<open>v\<close> that
  succeeded. The calls of the editor's own interface (notifications, context keys,
  posts to the panel) are taken to succeed, and the panel flow and the commit step run
  from the message handler of the panel, where \<open>_view\<close> is set.
\<close>

datatype event =
    ShowErrorMessage string
  | ShowWarningMessage string
  | ShowInformationMessage string
  | ShowInputBox
  | PostMessage webview_message
  | SetContext string context_value
  | SetTimeout nat event
  | ConsoleError string
  | Activate
  | SecretStore string
  | DiffIndexWithHEAD string
  | DiffWithHEAD string
  | Fetch request
  | Commit string

text \<open>
  A repository of the provider, as \<open>git.d.ts\<close> declares it: the two change lists are
  arrays. A change is its \<open>uri.fsPath\<close>. A diff operation gives the diff text or
  rejects (\<open>None\<close>); \<open>commit\<close> succeeds (\<open>None\<close>) or rejects with an error of the given
  message.
\<close>

record repository =
  indexChanges :: "string list"
  workingTreeChanges :: "string list"
  diffIndexWithHEAD :: "string \<Rightarrow> string option"
  diffWithHEAD :: "string \<Rightarrow> string option"
  commit :: "string \<Rightarrow> string option"

record git_extension =
  isActive :: bool
  activateFails :: bool
  repositories :: "repository list"

text \<open>
  Everything an invocation reads from outside: \<open>overrideKey\<close> is
  \<open>process.env.OVERRIDE_MODEL_API_KEY\<close>, \<open>inputKey\<close> is what the user answers to the
  input box (\<open>None\<close> when it is dismissed).
\<close>

record host = runtime +
  overrideKey :: "string option"
  secretGetFails :: bool
  secretStoreFails :: bool
  inputKey :: "string option"
  gitExtension :: "git_extension option"

text \<open>
  What an invocation can change: the value stored under \<open>diffDraft.groqApiKey\<close>, the
  field \<open>_iconIndex\<close> and the input box of the repository.
\<close>

record state =
  secret :: "string option"
  iconIndex :: nat
  inputBoxValue :: string

definition getRepo :: "host \<Rightarrow> event list \<times> repository option" where
  "getRepo h =
     (case gitExtension h of
        None \<Rightarrow> ([ShowErrorMessage ''Git extension not found.''], None)
      | Some g \<Rightarrow>
          if \<not> isActive g \<and> activateFails g
          then ([Activate, ShowErrorMessage ''Failed to activate Git extension.''], None)
          else
            (case repositories g of
               [] \<Rightarrow>
                 ((if isActive g then [] else [Activate]) @
                  [ShowErrorMessage
                     ''No Git repository found. Please open a folder with a Git repository.''],
                  None)
             | repo # rest \<Rightarrow> (if isActive g then [] else [Activate], Some repo)))"

definition getStoredApiKey :: "host \<Rightarrow> state \<Rightarrow> string option" where
  "getStoredApiKey h s =
     (if secretGetFails h then None
      else case secret s of
             None \<Rightarrow> None
           | Some key \<Rightarrow> if trim key = [] then None else Some (trim key))"

definition storeApiKey :: "host \<Rightarrow> string \<Rightarrow> state \<Rightarrow> event list \<times> state" where
  "storeApiKey h key s =
     (let trimmedKey = trim key in
      if trimmedKey \<noteq> [] then
        (if secretStoreFails h then ([ConsoleError ''Failed to store API key:''], s)
         else ([SecretStore trimmedKey], s\<lparr>secret := Some trimmedKey\<rparr>))
      else ([], s))"

text \<open>\<open>overrideKey?.trim()\<close> as a condition.\<close>

definition overrideActive :: "host \<Rightarrow> bool" where
  "overrideActive h = (case overrideKey h of None \<Rightarrow> False | Some k \<Rightarrow> trim k \<noteq> [])"

definition callGroq :: "host \<Rightarrow> string \<Rightarrow> string \<Rightarrow> event list \<times> (thrown + string)" where
  "callGroq h apiKey diff =
     ([Fetch (groqRequest apiKey diff)],
      case fetch h (groqRequest apiKey diff) of
        None \<Rightarrow> Inl (Fault FetchRejected)
      | Some r \<Rightarrow> handleResponse h r)"

text \<open>
  The loop over the selected changes (lines 166 to 171 and 278 to 285), with
  \<open>fullDiff\<close> as accumulator. A diff that rejects leaves the loop at once.
\<close>

fun collectDiffs ::
  "repository \<Rightarrow> bool \<Rightarrow> string list \<Rightarrow> string \<Rightarrow> event list \<times> string option" where
  "collectDiffs repo isStaged [] fullDiff = ([], Some fullDiff)"
| "collectDiffs repo isStaged (change # changes) fullDiff =
     (case (if isStaged then (DiffIndexWithHEAD change, diffIndexWithHEAD repo change)
            else (DiffWithHEAD change, diffWithHEAD repo change)) of
        (call, None) \<Rightarrow> ([call], None)
      | (call, Some diff) \<Rightarrow>
          (case collectDiffs repo isStaged changes
                  (fullDiff @ [nl] @ ''--- File: '' @ change @ '' ---'' @ [nl] @ diff) of
             (calls, result) \<Rightarrow> (call # calls, result)))"

text \<open>\<open>"Groq API Error: " + (error.message || "Unknown error occurred.")\<close>\<close>

definition groqApiError :: "host \<Rightarrow> thrown \<Rightarrow> string" where
  "groqApiError h error =
     ''Groq API Error: '' @
     (if messageOf h error = [] then ''Unknown error occurred.'' else messageOf h error)"

section \<open>The toolbar flow\<close>

text \<open>The \<open>finally\<close> block of \<open>generateCommitMessageWithKey\<close>; it runs on every way out.\<close>

definition resetGenerating :: "event list" where
  "resetGenerating =
     [SetContext ''diffDraft.isGenerating'' (CBool False),
      SetContext ''diffDraft.generatingIcon'' (CNum (- 1))]"

text \<open>
  Lines 177 to 221 of \<open>generateCommitMessageWithKey\<close>: what is done with the
  aggregated diff.
\<close>

definition scmGenerate :: "host \<Rightarrow> string \<Rightarrow> string \<Rightarrow> state \<Rightarrow> event list \<times> state" where
  "scmGenerate h apiKey fullDiff s =
     (if trim fullDiff = [] then
        ([ShowErrorMessage ''No text diff available. Changes may be binary files only.''], s)
      else
        (case callGroq h apiKey fullDiff of
           (es, Inr result) \<Rightarrow>
             (es @
              [SetContext ''diffDraft.isGenerating'' (CBool False),
               SetContext ''diffDraft.generatingIcon'' (CNum (- 1)),
               SetContext ''diffDraft.isSuccess'' (CBool True),
               SetTimeout 2000 (SetContext ''diffDraft.isSuccess'' (CBool False))],
              s\<lparr>inputBoxValue := result\<rparr>)
         | (es, Inl error) \<Rightarrow> (es @ [ShowErrorMessage (groqApiError h error)], s)))"

definition generateCommitMessageWithKey ::
  "host \<Rightarrow> string \<Rightarrow> state \<Rightarrow> event list \<times> state" where
  "generateCommitMessageWithKey h apiKey s =
     (case getRepo h of
        (rs, None) \<Rightarrow> (rs, s)
      | (rs, Some repo) \<Rightarrow>
          (let changes = (if indexChanges repo = [] then workingTreeChanges repo
                          else indexChanges repo);
               isStaged = (indexChanges repo \<noteq> [])
           in
           if changes = [] then
             (rs @ [ShowWarningMessage ''No changes detected (staged or working tree).''], s)
           else
             (let currentIconIndex = iconIndex s;
                  s1 = s\<lparr>iconIndex := (iconIndex s + 1) mod 5\<rparr>;
                  start = [SetContext ''diffDraft.isGenerating'' (CBool True),
                           SetContext ''diffDraft.generatingIcon'' (CNum (int currentIconIndex))]
              in
              case collectDiffs repo isStaged changes [] of
                (ds, None) \<Rightarrow>
                  (rs @ start @ ds @ [ShowErrorMessage ''Error reading git diffs.''] @
                   resetGenerating, s1)
              | (ds, Some fullDiff) \<Rightarrow>
                  (case scmGenerate h apiKey fullDiff s1 of
                     (es, s2) \<Rightarrow> (rs @ start @ ds @ es @ resetGenerating, s2)))))"

text \<open>
  Lines 81 to 97 of \<open>generateCommitMessageForSCM\<close>: no key is at hand, the user is
  asked for one.
\<close>

definition promptForKey :: "host \<Rightarrow> state \<Rightarrow> event list \<times> state" where
  "promptForKey h s =
     (case inputKey h of
        None \<Rightarrow>
          ([ShowInputBox,
            ShowWarningMessage ''API key is required to generate commit message.''], s)
      | Some input \<Rightarrow>
          if input = [] then
            ([ShowInputBox,
              ShowWarningMessage ''API key is required to generate commit message.''], s)
          else
            (case storeApiKey h input s of
               (ss, s1) \<Rightarrow>
                 (case generateCommitMessageWithKey h input s1 of
                    (es, s2) \<Rightarrow> (ShowInputBox # ss @ es, s2))))"

definition generateCommitMessageForSCM :: "host \<Rightarrow> state \<Rightarrow> event list \<times> state" where
  "generateCommitMessageForSCM h s =
     (let storedKey = getStoredApiKey h s;
          apiKey = (if overrideActive h then overrideKey h else storedKey)
      in
      case apiKey of
        None \<Rightarrow> promptForKey h s
      | Some key \<Rightarrow>
          if key = [] then promptForKey h s else generateCommitMessageWithKey h key s)"

section \<open>The panel flow\<close>

text \<open>Lines 295 to 313 of \<open>generateCommitMessage\<close>: what is done with the aggregated diff.\<close>

definition panelGenerate :: "host \<Rightarrow> string \<Rightarrow> string \<Rightarrow> event list" where
  "panelGenerate h finalApiKey fullDiff =
     (if trim fullDiff = [] then
        [PostMessage (ErrorMessage ''No text diff available. Changes may be binary files only.'')]
      else
        (case callGroq h finalApiKey fullDiff of
           (es, Inr result) \<Rightarrow> es @ [PostMessage (Result result)]
         | (es, Inl error) \<Rightarrow> es @ [PostMessage (ErrorMessage (groqApiError h error))]))"

definition generateCommitMessage :: "host \<Rightarrow> string \<Rightarrow> state \<Rightarrow> event list \<times> state" where
  "generateCommitMessage h apiKey s =
     (let finalApiKey = (if overrideActive h then the (overrideKey h) else apiKey) in
      if finalApiKey = [] then
        ([PostMessage (ErrorMessage ''Please enter a Groq API Key.'')], s)
      else
        (case getRepo h of
           (rs, None) \<Rightarrow> (rs, s)
         | (rs, Some repo) \<Rightarrow>
             (let changes = (if indexChanges repo = [] then workingTreeChanges repo
                             else indexChanges repo);
                  isStaged = (indexChanges repo \<noteq> [])
              in
              if changes = [] then
                (rs @ [PostMessage (ErrorMessage ''No changes detected (staged or working tree).'')],
                 s)
              else
                (case collectDiffs repo isStaged changes [] of
                   (ds, None) \<Rightarrow>
                     (rs @ [PostMessage Loading] @ ds @
                      [PostMessage (ErrorMessage ''Error reading git diffs.'')], s)
                 | (ds, Some fullDiff) \<Rightarrow>
                     (rs @ [PostMessage Loading] @ ds @ panelGenerate h finalApiKey fullDiff,
                      s)))))"

definition commitChanges :: "host \<Rightarrow> string \<Rightarrow> state \<Rightarrow> event list \<times> state" where
  "commitChanges h message s =
     (if message = [] \<or> trim message = [] then
        ([ShowErrorMessage ''Commit message cannot be empty.''], s)
      else
        (case getRepo h of
           (rs, None) \<Rightarrow> (rs, s)
         | (rs, Some repo) \<Rightarrow>
             if indexChanges repo = [] then
               (rs @ [ShowErrorMessage
                        ''No staged changes to commit. Please stage your changes first.''], s)
             else
               (case commit repo (trim message) of
                  None \<Rightarrow>
                    (rs @ [Commit (trim message), ShowInformationMessage ''Commit successful!'',
                           PostMessage Success], s)
                | Some m \<Rightarrow>
                    (rs @ [Commit (trim message),
                           ShowErrorMessage
                             (''Commit failed: '' @
                              (if m = [] then ''Unknown error occurred.'' else m))], s))))"

section \<open>Reading a trace\<close>

fun isDiffCall :: "event \<Rightarrow> bool" where
  "isDiffCall (DiffIndexWithHEAD path) = True"
| "isDiffCall (DiffWithHEAD path) = True"
| "isDiffCall e = False"

fun isRemoteCall :: "event \<Rightarrow> bool" where
  "isRemoteCall (Fetch q) = True"
| "isRemoteCall e = False"

fun isCommitCall :: "event \<Rightarrow> bool" where
  "isCommitCall (Commit m) = True"
| "isCommitCall e = False"

definition diffCalls :: "event list \<Rightarrow> event list" where
  "diffCalls es = filter isDiffCall es"

definition remoteCalls :: "event list \<Rightarrow> event list" where
  "remoteCalls es = filter isRemoteCall es"

definition commitCalls :: "event list \<Rightarrow> event list" where
  "commitCalls es = filter isCommitCall es"

text \<open>The diff operation and the call that belong to an origin.\<close>

definition diffOp :: "repository \<Rightarrow> bool \<Rightarrow> string \<Rightarrow> string option" where
  "diffOp repo isStaged = (if isStaged then diffIndexWithHEAD repo else diffWithHEAD repo)"

definition diffEvent :: "bool \<Rightarrow> string \<Rightarrow> event" where
  "diffEvent isStaged = (if isStaged then DiffIndexWithHEAD else DiffWithHEAD)"

text \<open>The changes of a list up to and including the first whose diff rejects.\<close>

fun attempted :: "(string \<Rightarrow> string option) \<Rightarrow> string list \<Rightarrow> string list" where
  "attempted f [] = []"
| "attempted f (c # cs) = (if f c = None then [c] else c # attempted f cs)"

text \<open>The part of the aggregated diff that one file contributes.\<close>

definition fileSection :: "string \<Rightarrow> string \<Rightarrow> string" where
  "fileSection path diff = [nl] @ ''--- File: '' @ path @ '' ---'' @ [nl] @ diff"

section \<open>Sample inputs\<close>

definition sampleRepo :: repository where
  "sampleRepo =
     \<lparr> indexChanges = [''a.ts''],
       workingTreeChanges = [''b.ts''],
       diffIndexWithHEAD = (\<lambda>path. if path = ''a.ts'' then Some ''+x'' else None),
       diffWithHEAD = (\<lambda>path. Some ''-y''),
       commit = (\<lambda>m. None) \<rparr>"

definition sampleHost :: "repository \<Rightarrow> response \<Rightarrow> host" where
  "sampleHost repo r =
     \<lparr> fetch = (\<lambda>q. Some r),
       faultText = (\<lambda>f. ''fault''),
       toText = (\<lambda>v. ''value''),
       overrideKey = None,
       secretGetFails = False,
       secretStoreFails = False,
       inputKey = None,
       gitExtension = Some \<lparr> isActive = True, activateFails = False, repositories = [repo] \<rparr> \<rparr>"

definition sampleState :: state where
  "sampleState = \<lparr> secret = Some ''gsk_old'', iconIndex = 0, inputBoxValue = [] \<rparr>"

definition invalidKeyBody :: json where
  "invalidKeyBody = JObj [(''error'', JObj [(''message'', JStr ''Invalid API Key'')])]"

definition unauthorized :: response where
  "unauthorized = \<lparr> status = 401, statusText = ''Unauthorized'', body = Some invalidKeyBody \<rparr>"

definition serverError :: response where
  "serverError =
     \<lparr> status = 500, statusText = ''Internal Server Error'', body = Some invalidKeyBody \<rparr>"

definition generated :: response where
  "generated =
     \<lparr> status = 200, statusText = ''OK'',
       body = Some (JObj [(''choices'',
                 JArr [JObj [(''message'', JObj [(''content'', JStr '' feat: add x '')])]])]) \<rparr>"

definition unavailable :: response where
  "unavailable = \<lparr> status = 503, statusText = ''Service Unavailable'', body = None \<rparr>"

definition refused :: response where
  "refused =
     \<lparr> status = 200, statusText = ''OK'',
       body = Some (JObj [(''error'', JObj [(''code'', JNum 1)])]) \<rparr>"

definition noChoices :: response where
  "noChoices =
     \<lparr> status = 200, statusText = ''OK'', body = Some (JObj [(''choices'', JArr [])]) \<rparr>"

definition emptyRepo :: repository where
  "emptyRepo = sampleRepo \<lparr> indexChanges := [], workingTreeChanges := [] \<rparr>"

definition unstagedRepo :: repository where
  "unstagedRepo = sampleRepo \<lparr> indexChanges := [] \<rparr>"

definition brokenRepo :: repository where
  "brokenRepo = sampleRepo \<lparr> indexChanges := [''a.ts'', ''gone.ts'', ''later.ts''] \<rparr>"

definition otherTreeRepo :: repository where
  "otherTreeRepo =
     sampleRepo \<lparr> workingTreeChanges := [''zzz''], diffWithHEAD := (\<lambda>path. None) \<rparr>"

definition overrideHost :: host where
  "overrideHost = (sampleHost sampleRepo generated) \<lparr> overrideKey := Some ''gsk_env'' \<rparr>"

definition promptHost :: host where
  "promptHost = (sampleHost sampleRepo generated) \<lparr> inputKey := Some '' gsk_new '' \<rparr>"

definition emptyState :: state where
  "emptyState = \<lparr> secret = None, iconIndex = 0, inputBoxValue = [] \<rparr>"

definition forbidden :: response where
  "forbidden =
     \<lparr> status = 403, statusText = ''Forbidden'',
       body = Some (JObj [(''error'', JObj [(''message'', JStr ''invalid key'')])]) \<rparr>"

definition coded :: response where
  "coded =
     \<lparr> status = 401, statusText = ''Unauthorized'',
       body = Some (JObj [(''error'', JObj [(''message'', JNum 42)])]) \<rparr>"

definition nullError :: response where
  "nullError =
     \<lparr> status = 200, statusText = ''OK'',
       body = Some (JObj [(''error'', JNull),
                 (''choices'',
                  JArr [JObj [(''message'', JObj [(''content'', JStr '' feat: add x '')])]])]) \<rparr>"

definition numberContent :: response where
  "numberContent =
     \<lparr> status = 200, statusText = ''OK'',
       body = Some (JObj [(''choices'',
                 JArr [JObj [(''message'', JObj [(''content'', JNum 7)])]])]) \<rparr>"

definition quota :: response where
  "quota =
     \<lparr> status = 200, statusText = ''OK'',
       body = Some (JObj [(''error'', JObj [(''message'', JStr ''quota exceeded'')])]) \<rparr>"

definition garbled :: response where
  "garbled = \<lparr> status = 200, statusText = ''OK'', body = None \<rparr>"

definition nullBody :: response where
  "nullBody = \<lparr> status = 200, statusText = ''OK'', body = Some JNull \<rparr>"

definition binRepo :: repository where
  "binRepo =
     sampleRepo \<lparr> indexChanges := [''bin.png''], diffIndexWithHEAD := (\<lambda>path. Some []) \<rparr>"

section \<open>Facts about trimming\<close>

lemma trim_Nil_iff: "trim s = [] \<longleftrightarrow> (\<forall>c \<in> set s. is_ws c)"
  unfolding trim_def
  by (metis dropWhile_eq_Nil_conv set_rev rev_is_Nil_conv dropWhile_idem)

lemma trim_idem: "trim (trim s) = trim s"
  unfolding trim_def
  by (metis (no_types, lifting) ext Nil_is_rev_conv dropWhile_eq_Nil_conv
    dropWhile_eq_self_iff dropWhile_last hd_dropWhile last_rev
    rev_swap)

lemma not_ws_dash: "\<not> is_ws CHR ''-''"
  by (simp add: is_ws_def)

lemma trim_fileSection: "trim (acc @ fileSection path diff) \<noteq> []"
  by (auto simp: trim_Nil_iff fileSection_def not_ws_dash)

lemma trim_feat: "trim '' feat: add x '' = ''feat: add x''"
  by (simp add: trim_def is_ws_def)

lemma trim_gsk: "trim ''gsk_old'' = ''gsk_old''"
  by (simp add: trim_def is_ws_def)

lemma blank_message: "\<forall>c \<in> set ''  ''. is_ws c"
  by (simp add: is_ws_def)

lemma trim_fix: "trim '' fix: y '' = ''fix: y''"
  by (simp add: trim_def is_ws_def)

lemma nonblank_fix: "\<not> (\<forall>c \<in> set '' fix: y ''. is_ws c)"
  by (simp add: is_ws_def)

lemma nonblank_env: "\<not> (\<forall>c \<in> set ''gsk_env''. is_ws c)"
  by (simp add: is_ws_def)

lemma trim_gsk_new: "trim '' gsk_new '' = ''gsk_new''"
  by (simp add: trim_def is_ws_def)

section \<open>Facts about the aggregation loop\<close>

lemma collectDiffs_Cons:
  "collectDiffs repo isStaged (c # cs) acc =
     (case diffOp repo isStaged c of
        None \<Rightarrow> ([diffEvent isStaged c], None)
      | Some d \<Rightarrow>
          (diffEvent isStaged c # fst (collectDiffs repo isStaged cs (acc @ fileSection c d)),
           snd (collectDiffs repo isStaged cs (acc @ fileSection c d))))"
  by (simp add: diffOp_def diffEvent_def fileSection_def split: prod.splits option.splits)

lemma collectDiffs_calls:
  "fst (collectDiffs repo isStaged cs acc) =
     map (diffEvent isStaged) (attempted (diffOp repo isStaged) cs)"
  by (induction cs arbitrary: acc)
     (simp_all add: collectDiffs_Cons del: collectDiffs.simps(2) split: option.splits)

lemma collectDiffs_None_iff:
  "snd (collectDiffs repo isStaged cs acc) = None \<longleftrightarrow>
     (\<exists>p \<in> set cs. diffOp repo isStaged p = None)"
  by (induction cs arbitrary: acc)
     (auto simp add: collectDiffs_Cons simp del: collectDiffs.simps(2) split: option.splits)

lemma collectDiffs_all:
  "\<forall>p \<in> set cs. diffOp repo isStaged p \<noteq> None \<Longrightarrow>
   collectDiffs repo isStaged cs acc =
     (map (diffEvent isStaged) cs,
      Some (acc @ concat (map (\<lambda>p. fileSection p (the (diffOp repo isStaged p))) cs)))"
proof (induction cs arbitrary: acc)
  case Nil
  then show ?case by simp
next
  case (Cons c cs)
  then obtain d where d: "diffOp repo isStaged c = Some d" by auto
  have "collectDiffs repo isStaged cs (acc @ fileSection c d) =
     (map (diffEvent isStaged) cs,
      Some ((acc @ fileSection c d) @ concat (map (\<lambda>p. fileSection p (the (diffOp repo isStaged p))) cs)))"
    using Cons by simp
  then show ?case
    by (simp add: collectDiffs_Cons d del: collectDiffs.simps(2))
qed

lemma collectDiffs_nonblank:
  "snd (collectDiffs repo isStaged cs acc) = Some full \<Longrightarrow> cs \<noteq> [] \<or> trim acc \<noteq> [] \<Longrightarrow>
   trim full \<noteq> []"
proof (induction cs arbitrary: acc)
  case Nil
  then show ?case by simp
next
  case (Cons c cs)
  then obtain d where d: "diffOp repo isStaged c = Some d"
    and rest: "snd (collectDiffs repo isStaged cs (acc @ fileSection c d)) = Some full"
    by (auto simp add: collectDiffs_Cons simp del: collectDiffs.simps(2) split: option.splits)
  show ?case
    using Cons.IH [OF rest] trim_fileSection by blast
qed

lemma attempted_Nil_iff: "attempted f cs = [] \<longleftrightarrow> cs = []"
  by (cases cs) auto

lemma attempted_last:
  "p \<in> set cs \<Longrightarrow> f p = None \<Longrightarrow> f (last (attempted f cs)) = None"
  by (induction cs) (auto simp: attempted_Nil_iff)

lemma diffOp_simps:
  "diffOp repo True = diffIndexWithHEAD repo" "diffOp repo False = diffWithHEAD repo"
  "diffEvent True = DiffIndexWithHEAD" "diffEvent False = DiffWithHEAD"
  by (simp_all add: diffOp_def diffEvent_def)

lemma collectDiffs_staged_cong:
  "diffIndexWithHEAD repo' = diffIndexWithHEAD repo \<Longrightarrow>
   collectDiffs repo' True cs acc = collectDiffs repo True cs acc"
  by (induction cs arbitrary: acc) (simp_all split: option.splits)

section \<open>Facts about traces\<close>

lemma diffCalls_collect:
  "diffCalls (map (diffEvent isStaged) cs) = map (diffEvent isStaged) cs"
  by (induction cs) (auto simp: diffCalls_def diffEvent_def)

lemma remoteCalls_collect:
  "remoteCalls (map (diffEvent isStaged) cs) = []"
  by (induction cs) (auto simp: remoteCalls_def diffEvent_def)

lemma diffCalls_append: "diffCalls (xs @ ys) = diffCalls xs @ diffCalls ys"
  by (simp add: diffCalls_def)

lemma remoteCalls_append: "remoteCalls (xs @ ys) = remoteCalls xs @ remoteCalls ys"
  by (simp add: remoteCalls_def)

lemma diffCalls_Cons: "diffCalls (x # xs) = (if isDiffCall x then x # diffCalls xs else diffCalls xs)"
  by (simp add: diffCalls_def)

lemma remoteCalls_Cons: "remoteCalls (x # xs) = (if isRemoteCall x then x # remoteCalls xs else remoteCalls xs)"
  by (simp add: remoteCalls_def)

lemma calls_Nil: "diffCalls [] = []" "remoteCalls [] = []"
  by (simp_all add: diffCalls_def remoteCalls_def)

lemma resetGenerating_calls: "diffCalls resetGenerating = []" "remoteCalls resetGenerating = []"
  by (simp_all add: diffCalls_def remoteCalls_def resetGenerating_def)

lemmas calls_simps = diffCalls_append remoteCalls_append diffCalls_Cons remoteCalls_Cons calls_Nil
  resetGenerating_calls diffCalls_collect remoteCalls_collect

lemma Fetch_in_remoteCalls: "Fetch q \<in> set es \<longleftrightarrow> Fetch q \<in> set (remoteCalls es)"
  by (auto simp: remoteCalls_def)

lemma diffEvent_quiet:
  "e \<in> set (map (diffEvent b) cs) \<Longrightarrow> e \<noteq> ShowInputBox \<and> e \<noteq> SecretStore v"
  by (cases b) (auto simp: diffEvent_def)

section \<open>Facts about the remote call\<close>

lemma newError_cong:
  "toText h' = toText h \<Longrightarrow> newError h' v = newError h v"
  by (simp add: newError_def split: json.splits)

lemma handleResponse_cong:
  "toText h' = toText h \<Longrightarrow> handleResponse h' r = handleResponse h r"
  by (simp add: handleResponse_def notOk_def okResponse_def newError_cong [of h' h]
        split: option.splits json.splits)

lemma callGroq_cong:
  "fetch h' = fetch h \<Longrightarrow> toText h' = toText h \<Longrightarrow> callGroq h' k d = callGroq h k d"
  by (simp add: callGroq_def handleResponse_cong [of h' h] split: option.splits)

lemma groqApiError_cong:
  "faultText h' = faultText h \<Longrightarrow> groqApiError h' e = groqApiError h e"
  by (cases e) (simp_all add: groqApiError_def)

lemma authorization_groqRequest: "authorization (groqRequest k d) = ''Bearer '' @ k"
  by (simp add: groqRequest_def)

lemma newError_JStr: "newError h (JStr m) = Error m"
  by (simp add: newError_def)

lemma or_else_falsy: "\<not> truthy v \<Longrightarrow> or_else v d = JStr d"
  by (cases v) simp_all

lemma notOk_is_Error: "\<exists>m. notOk h r = Error m"
  by (auto simp: notOk_def Let_def newError_def split: option.splits json.splits)

lemma notOk_body:
  "body r = Some x \<Longrightarrow> x \<noteq> JNull \<Longrightarrow>
   notOk h r =
     newError h (or_else (errorMessageOf x)
                   (''HTTP '' @ decimal (status r) @ '': '' @ statusText r))"
  by (cases x) (simp_all add: notOk_def)

lemma notOk_no_body:
  "body r = None \<or> body r = Some JNull \<Longrightarrow>
   notOk h r = Error (''HTTP '' @ decimal (status r) @ '': '' @ statusText r)"
  by (auto simp: notOk_def)

lemma okResponse_body:
  "body r = Some x \<Longrightarrow> x \<noteq> JNull \<Longrightarrow>
   okResponse h r =
     (if truthy (property ''error'' x) then
        Inl (newError h (or_else (errorMessageOf x) ''API returned an error.''))
      else
        (case contentOf x of
           None \<Rightarrow> Inl (Error ''API returned empty response.'')
         | Some JNull \<Rightarrow> Inl (Error ''API returned empty response.'')
         | Some (JStr text) \<Rightarrow>
             (if trim text = [] then Inl (Error ''API returned empty response.'')
              else Inr (trim text))
         | Some v \<Rightarrow> Inl (Fault NotAFunction)))"
  by (cases x) (simp_all add: okResponse_def)

lemma okResponse_generated:
  "ok r \<Longrightarrow>
   body r = Some (JObj [(''choices'',
              JArr [JObj [(''message'', JObj [(''content'', JStr '' feat: add x '')])]])]) \<Longrightarrow>
   handleResponse h r = Inr ''feat: add x''"
  by (simp add: handleResponse_def okResponse_def contentOf_def trim_feat)

lemma newError_text: "newError h v = Error (case v of JStr m \<Rightarrow> m | _ \<Rightarrow> toText h v)"
  by (simp add: newError_def split: json.splits)

lemma or_else_truthy: "truthy (Some v) \<Longrightarrow> or_else (Some v) d = v"
  by simp

section \<open>Facts about the repository and the secret store\<close>

lemma getRepo_no_calls:
  "diffCalls (fst (getRepo h)) = [] \<and> remoteCalls (fst (getRepo h)) = [] \<and> commitCalls (fst (getRepo h)) = []"
  by (auto simp: getRepo_def diffCalls_def remoteCalls_def commitCalls_def split: option.splits if_splits list.splits)

lemma overrideActive_key: "overrideActive h \<Longrightarrow> \<exists>ov. overrideKey h = Some ov \<and> trim ov \<noteq> [] \<and> ov \<noteq> []"
  by (auto simp: overrideActive_def trim_def split: option.splits)

lemma finalKey_nonempty:
  "overrideActive h \<or> key \<noteq> [] \<Longrightarrow> (if overrideActive h then the (overrideKey h) else key) \<noteq> []"
  by (auto dest: overrideActive_key)

lemma storeApiKey_calls:
  "\<forall>e \<in> set (fst (storeApiKey h key s)). \<not> isDiffCall e \<and> \<not> isRemoteCall e"
  by (auto simp: storeApiKey_def Let_def)

lemma getRepo_filter:
  "getRepo h = (rs, Some repo) \<Longrightarrow> diffCalls rs = [] \<and> remoteCalls rs = [] \<and> commitCalls rs = []"
  using getRepo_no_calls [of h] by simp

lemma getRepo_quiet:
  "e \<in> set (fst (getRepo h)) \<Longrightarrow> e \<noteq> ShowInputBox \<and> e \<noteq> SecretStore v"
  by (auto simp: getRepo_def split: option.splits list.splits if_splits)

lemma storeApiKey_written:
  "SecretStore v \<in> set (fst (storeApiKey h key s)) \<Longrightarrow> v = trim key \<and> trim v = v \<and> v \<noteq> []"
  by (auto simp: storeApiKey_def Let_def trim_idem split: if_splits)

lemma storeApiKey_secret:
  "secret (snd (storeApiKey h key s)) = secret s \<or>
   (secret (snd (storeApiKey h key s)) = Some (trim key) \<and> trim key \<noteq> [] \<and>
    fst (storeApiKey h key s) = [SecretStore (trim key)])"
  by (auto simp: storeApiKey_def Let_def)

lemma getStoredApiKey_nonempty: "getStoredApiKey h s = Some key \<Longrightarrow> key \<noteq> []"
  by (auto simp: getStoredApiKey_def split: if_splits option.splits)

section \<open>Facts about the flows\<close>

lemma scmGenerate_secret: "secret (snd (scmGenerate h k d s)) = secret s"
  by (auto simp: scmGenerate_def callGroq_def split: sum.splits prod.splits)

lemma withKey_unfold:
  "getRepo h = (rs, Some repo) \<Longrightarrow>
   generateCommitMessageWithKey h k s =
     (let changes = (if indexChanges repo = [] then workingTreeChanges repo else indexChanges repo);
          isStaged = (indexChanges repo \<noteq> [])
      in if changes = [] then
           (rs @ [ShowWarningMessage ''No changes detected (staged or working tree).''], s)
         else
           (let s1 = s\<lparr>iconIndex := (iconIndex s + 1) mod 5\<rparr>;
                start = [SetContext ''diffDraft.isGenerating'' (CBool True),
                         SetContext ''diffDraft.generatingIcon'' (CNum (int (iconIndex s)))];
                ds = map (diffEvent isStaged) (attempted (diffOp repo isStaged) changes)
            in case snd (collectDiffs repo isStaged changes []) of
                 None \<Rightarrow> (rs @ start @ ds @ [ShowErrorMessage ''Error reading git diffs.''] @ resetGenerating, s1)
               | Some fullDiff \<Rightarrow>
                   (rs @ start @ ds @ fst (scmGenerate h k fullDiff s1) @ resetGenerating,
                    snd (scmGenerate h k fullDiff s1))))"
  by (simp add: generateCommitMessageWithKey_def Let_def case_prod_beta collectDiffs_calls
           split: option.splits)

lemma withKey_norepo:
  "getRepo h = (rs, None) \<Longrightarrow> generateCommitMessageWithKey h k s = (rs, s)"
  by (simp add: generateCommitMessageWithKey_def)

lemma panel_unfold:
  "getRepo h = (rs, Some repo) \<Longrightarrow>
   generateCommitMessage h k s =
     (let finalApiKey = (if overrideActive h then the (overrideKey h) else k) in
      if finalApiKey = [] then ([PostMessage (ErrorMessage ''Please enter a Groq API Key.'')], s)
      else
      (let changes = (if indexChanges repo = [] then workingTreeChanges repo else indexChanges repo);
          isStaged = (indexChanges repo \<noteq> [])
      in if changes = [] then
           (rs @ [PostMessage (ErrorMessage ''No changes detected (staged or working tree).'')], s)
         else
           (let ds = map (diffEvent isStaged) (attempted (diffOp repo isStaged) changes)
            in case snd (collectDiffs repo isStaged changes []) of
                 None \<Rightarrow> (rs @ [PostMessage Loading] @ ds @ [PostMessage (ErrorMessage ''Error reading git diffs.'')], s)
               | Some fullDiff \<Rightarrow>
                   (rs @ [PostMessage Loading] @ ds @ panelGenerate h finalApiKey fullDiff, s))))"
  by (simp add: generateCommitMessage_def Let_def case_prod_beta collectDiffs_calls
           split: option.splits)

lemma forSCM_cases:
  "generateCommitMessageForSCM h s =
     ([ShowInputBox, ShowWarningMessage ''API key is required to generate commit message.''], s)
   \<or> (\<exists>key. generateCommitMessageForSCM h s = generateCommitMessageWithKey h key s)
   \<or> (\<exists>input. generateCommitMessageForSCM h s =
         (ShowInputBox # fst (storeApiKey h input s) @
            fst (generateCommitMessageWithKey h input (snd (storeApiKey h input s))),
          snd (generateCommitMessageWithKey h input (snd (storeApiKey h input s)))))"
  by (auto simp add: generateCommitMessageForSCM_def promptForKey_def Let_def case_prod_beta
        split: option.splits)

lemma forSCM_remoteCalls:
  "(\<And>key s1. remoteCalls (fst (generateCommitMessageWithKey h key s1)) = []) \<Longrightarrow>
   remoteCalls (fst (generateCommitMessageForSCM h s)) = []"
  using forSCM_cases [of h s] storeApiKey_calls [of h _ s]
  by (auto simp: remoteCalls_def filter_empty_conv)

lemma forSCM_diffCalls:
  "(\<And>key s1. diffCalls (fst (generateCommitMessageWithKey h key s1)) = []) \<Longrightarrow>
   diffCalls (fst (generateCommitMessageForSCM h s)) = []"
  using forSCM_cases [of h s] storeApiKey_calls [of h _ s]
  by (auto simp: diffCalls_def filter_empty_conv)

lemma scmGenerate_cong:
  "fetch h' = fetch h \<Longrightarrow> faultText h' = faultText h \<Longrightarrow> toText h' = toText h \<Longrightarrow>
   scmGenerate h' k d s = scmGenerate h k d s"
  by (simp add: scmGenerate_def callGroq_cong [of h' h] groqApiError_cong [of h' h])

lemma panelGenerate_cong:
  "fetch h' = fetch h \<Longrightarrow> faultText h' = faultText h \<Longrightarrow> toText h' = toText h \<Longrightarrow>
   panelGenerate h' k d = panelGenerate h k d"
  by (simp add: panelGenerate_def callGroq_cong [of h' h] groqApiError_cong [of h' h])

lemma scmGenerate_remoteCalls:
  "remoteCalls (fst (scmGenerate h k d s)) = (if trim d = [] then [] else [Fetch (groqRequest k d)])"
  by (simp add: scmGenerate_def callGroq_def remoteCalls_def split: sum.splits)

lemma panelGenerate_remoteCalls:
  "remoteCalls (panelGenerate h k d) = (if trim d = [] then [] else [Fetch (groqRequest k d)])"
  by (simp add: panelGenerate_def callGroq_def remoteCalls_def split: sum.splits)

lemma scmGenerate_diffCalls: "diffCalls (fst (scmGenerate h k d s)) = []"
  by (simp add: scmGenerate_def callGroq_def diffCalls_def split: sum.splits)

lemma panelGenerate_diffCalls: "diffCalls (panelGenerate h k d) = []"
  by (simp add: panelGenerate_def callGroq_def diffCalls_def split: sum.splits)

lemma withKey_diffCalls:
  assumes "getRepo h = (rs, Some repo)"
  shows "diffCalls (fst (generateCommitMessageWithKey h key s)) =
     map (diffEvent (indexChanges repo \<noteq> []))
       (attempted (diffOp repo (indexChanges repo \<noteq> []))
          (if indexChanges repo = [] then workingTreeChanges repo else indexChanges repo))"
  using getRepo_filter [OF assms]
  by (simp add: withKey_unfold [OF assms] Let_def calls_simps scmGenerate_diffCalls
        split: option.splits)

lemma panel_diffCalls:
  assumes "getRepo h = (rs, Some repo)" and "overrideActive h \<or> key \<noteq> []"
  shows "diffCalls (fst (generateCommitMessage h key s)) =
     map (diffEvent (indexChanges repo \<noteq> []))
       (attempted (diffOp repo (indexChanges repo \<noteq> []))
          (if indexChanges repo = [] then workingTreeChanges repo else indexChanges repo))"
  using getRepo_filter [OF assms(1)] finalKey_nonempty [OF assms(2)]
  by (simp add: panel_unfold [OF assms(1)] Let_def calls_simps panelGenerate_diffCalls
        split: option.splits)

lemma withKey_remoteCalls:
  "remoteCalls (fst (generateCommitMessageWithKey h key s)) = [] \<or>
   (\<exists>d. trim d \<noteq> [] \<and>
      remoteCalls (fst (generateCommitMessageWithKey h key s)) = [Fetch (groqRequest key d)])"
proof (cases "getRepo h")
  case (Pair rs r)
  show ?thesis
  proof (cases r)
    case None
    then show ?thesis
      using Pair getRepo_no_calls [of h] by (simp add: withKey_norepo)
  next
    case (Some repo)
    then have g: "getRepo h = (rs, Some repo)" using Pair by simp
    show ?thesis
      using getRepo_filter [OF g]
      by (cases "indexChanges repo = []")
         (auto simp add: withKey_unfold [OF g] Let_def calls_simps scmGenerate_remoteCalls
            split: option.splits)
  qed
qed

lemma panel_remoteCalls:
  "remoteCalls (fst (generateCommitMessage h key s)) = [] \<or>
   (\<exists>d. trim d \<noteq> [] \<and>
      remoteCalls (fst (generateCommitMessage h key s)) =
        [Fetch (groqRequest (if overrideActive h then the (overrideKey h) else key) d)])"
proof (cases "getRepo h")
  case (Pair rs r)
  show ?thesis
  proof (cases r)
    case None
    then show ?thesis
      using Pair getRepo_no_calls [of h]
      by (simp add: generateCommitMessage_def Let_def calls_simps)
  next
    case (Some repo)
    then have g: "getRepo h = (rs, Some repo)" using Pair by simp
    show ?thesis
      using getRepo_filter [OF g]
      by (cases "indexChanges repo = []")
         (auto simp add: panel_unfold [OF g] Let_def calls_simps panelGenerate_remoteCalls
            split: option.splits)
  qed
qed

lemma scmGenerate_quiet:
  "e \<in> set (fst (scmGenerate h k d s)) \<Longrightarrow> e \<noteq> ShowInputBox \<and> e \<noteq> SecretStore v"
  by (auto simp: scmGenerate_def callGroq_def split: sum.splits if_splits)

lemma panelGenerate_quiet:
  "e \<in> set (panelGenerate h k d) \<Longrightarrow> e \<noteq> ShowInputBox \<and> e \<noteq> SecretStore v"
  by (auto simp: panelGenerate_def callGroq_def split: sum.splits if_splits)

lemma withKey_quiet:
  assumes "e \<in> set (fst (generateCommitMessageWithKey h key s))"
  shows "e \<noteq> ShowInputBox \<and> e \<noteq> SecretStore v"
proof (cases "getRepo h")
  case (Pair rs r)
  have rs: "x \<in> set rs \<Longrightarrow> x \<noteq> ShowInputBox \<and> x \<noteq> SecretStore v" for x
    using getRepo_quiet [of x h v] Pair by simp
  show ?thesis
  proof (cases r)
    case None
    then show ?thesis using assms Pair rs by (simp add: withKey_norepo)
  next
    case (Some repo)
    then have g: "getRepo h = (rs, Some repo)" using Pair by simp
    show ?thesis
      using assms rs diffEvent_quiet [of e _ _ v] scmGenerate_quiet [of e h key _ _ v]
      by (auto simp: withKey_unfold [OF g] Let_def resetGenerating_def
            split: option.splits if_splits)
  qed
qed

lemma panel_quiet:
  assumes "e \<in> set (fst (generateCommitMessage h key s))"
  shows "e \<noteq> ShowInputBox \<and> e \<noteq> SecretStore v"
proof (cases "getRepo h")
  case (Pair rs r)
  have rs: "x \<in> set rs \<Longrightarrow> x \<noteq> ShowInputBox \<and> x \<noteq> SecretStore v" for x
    using getRepo_quiet [of x h v] Pair by simp
  show ?thesis
  proof (cases r)
    case None
    then show ?thesis using assms Pair rs
      by (auto simp: generateCommitMessage_def Let_def split: if_splits)
  next
    case (Some repo)
    then have g: "getRepo h = (rs, Some repo)" using Pair by simp
    show ?thesis
      using assms rs diffEvent_quiet [of e _ _ v] panelGenerate_quiet [of e h _ _ v]
      by (auto simp: panel_unfold [OF g] Let_def split: option.splits if_splits)
  qed
qed

lemma commit_quiet:
  "e \<in> set (fst (commitChanges h m s)) \<Longrightarrow> e \<noteq> SecretStore v"
  using getRepo_quiet [of e h v]
  by (auto simp: commitChanges_def case_prod_beta split: option.splits if_splits)

lemma withKey_secret: "secret (snd (generateCommitMessageWithKey h key s)) = secret s"
proof (cases "getRepo h")
  case (Pair rs r)
  show ?thesis
  proof (cases r)
    case None
    then show ?thesis using Pair by (simp add: withKey_norepo)
  next
    case (Some repo)
    then have g: "getRepo h = (rs, Some repo)" using Pair by simp
    show ?thesis
      by (simp add: withKey_unfold [OF g] Let_def scmGenerate_secret split: option.splits)
  qed
qed

lemma panel_state: "snd (generateCommitMessage h key s) = s"
  by (simp add: generateCommitMessage_def Let_def case_prod_beta split: option.splits)

lemma commit_state: "snd (commitChanges h m s) = s"
  by (simp add: commitChanges_def case_prod_beta split: option.splits)

lemma forSCM_written:
  assumes "SecretStore v \<in> set (fst (generateCommitMessageForSCM h s))"
  shows "trim v = v \<and> v \<noteq> []"
proof -
  consider
    (warn) "generateCommitMessageForSCM h s =
     ([ShowInputBox, ShowWarningMessage ''API key is required to generate commit message.''], s)"
  | (key) key where "generateCommitMessageForSCM h s = generateCommitMessageWithKey h key s"
  | (input) input where "generateCommitMessageForSCM h s =
         (ShowInputBox # fst (storeApiKey h input s) @
            fst (generateCommitMessageWithKey h input (snd (storeApiKey h input s))),
          snd (generateCommitMessageWithKey h input (snd (storeApiKey h input s))))"
    using forSCM_cases [of h s] by blast
  then show ?thesis
  proof cases
    case warn
    then show ?thesis using assms by simp
  next
    case key
    then show ?thesis using assms withKey_quiet [of "SecretStore v" h key s v] by simp
  next
    case input
    then have "SecretStore v \<in> set (fst (storeApiKey h input s))"
      using assms withKey_quiet [of "SecretStore v" h input "snd (storeApiKey h input s)" v]
      by auto
    then show ?thesis using storeApiKey_written by blast
  qed
qed

lemma forSCM_secret:
  "secret (snd (generateCommitMessageForSCM h s)) = secret s \<or>
   (\<exists>v. secret (snd (generateCommitMessageForSCM h s)) = Some v \<and> trim v = v \<and> v \<noteq> [])"
proof -
  consider
    (warn) "generateCommitMessageForSCM h s =
     ([ShowInputBox, ShowWarningMessage ''API key is required to generate commit message.''], s)"
  | (key) key where "generateCommitMessageForSCM h s = generateCommitMessageWithKey h key s"
  | (input) input where "generateCommitMessageForSCM h s =
         (ShowInputBox # fst (storeApiKey h input s) @
            fst (generateCommitMessageWithKey h input (snd (storeApiKey h input s))),
          snd (generateCommitMessageWithKey h input (snd (storeApiKey h input s))))"
    using forSCM_cases [of h s] by blast
  then show ?thesis
  proof cases
    case warn
    then show ?thesis by simp
  next
    case key
    then show ?thesis by (simp add: withKey_secret)
  next
    case input
    then show ?thesis
      using storeApiKey_secret [of h input s]
      by (auto simp: withKey_secret trim_idem)
  qed
qed

lemma commitChanges_unfold:
  "getRepo h = (rs, Some repo) \<Longrightarrow>
   commitChanges h message s =
     (if message = [] \<or> trim message = [] then
        ([ShowErrorMessage ''Commit message cannot be empty.''], s)
      else if indexChanges repo = [] then
        (rs @ [ShowErrorMessage ''No staged changes to commit. Please stage your changes first.''], s)
      else
        (case commit repo (trim message) of
           None \<Rightarrow>
             (rs @ [Commit (trim message), ShowInformationMessage ''Commit successful!'',
                    PostMessage Success], s)
         | Some m \<Rightarrow>
             (rs @ [Commit (trim message),
                    ShowErrorMessage
                      (''Commit failed: '' @ (if m = [] then ''Unknown error occurred.'' else m))],
              s)))"
  by (simp add: commitChanges_def)

lemma scmGenerate_run:
  "fetch h (groqRequest key d) = Some r \<Longrightarrow> trim d \<noteq> [] \<Longrightarrow>
   scmGenerate h key d s =
     (case handleResponse h r of
        Inr result \<Rightarrow>
          ([Fetch (groqRequest key d),
            SetContext ''diffDraft.isGenerating'' (CBool False),
            SetContext ''diffDraft.generatingIcon'' (CNum (- 1)),
            SetContext ''diffDraft.isSuccess'' (CBool True),
            SetTimeout 2000 (SetContext ''diffDraft.isSuccess'' (CBool False))],
           s\<lparr>inputBoxValue := result\<rparr>)
      | Inl error \<Rightarrow>
          ([Fetch (groqRequest key d), ShowErrorMessage (groqApiError h error)], s))"
  by (simp add: scmGenerate_def callGroq_def split: sum.splits)

lemma panelGenerate_run:
  "fetch h (groqRequest key d) = Some r \<Longrightarrow> trim d \<noteq> [] \<Longrightarrow>
   panelGenerate h key d =
     (case handleResponse h r of
        Inr result \<Rightarrow> [Fetch (groqRequest key d), PostMessage (Result result)]
      | Inl error \<Rightarrow>
          [Fetch (groqRequest key d), PostMessage (ErrorMessage (groqApiError h error))])"
  by (simp add: panelGenerate_def callGroq_def split: sum.splits)

lemma forSCM_stored:
  "getStoredApiKey h s = Some key \<Longrightarrow> \<not> overrideActive h \<Longrightarrow>
   generateCommitMessageForSCM h s = generateCommitMessageWithKey h key s"
  using getStoredApiKey_nonempty [of h s key]
  by (simp add: generateCommitMessageForSCM_def Let_def)

lemma withKey_remoteCalls_run:
  assumes "getRepo h = (rs, Some repo)"
    and "changes = (if indexChanges repo = [] then workingTreeChanges repo else indexChanges repo)"
    and "changes \<noteq> []"
    and "collectDiffs repo (indexChanges repo \<noteq> []) changes [] = (ds, Some fullDiff)"
  shows "remoteCalls (fst (generateCommitMessageWithKey h key s)) =
           [Fetch (groqRequest key fullDiff)]"
proof -
  have nb: "trim fullDiff \<noteq> []"
    using collectDiffs_nonblank [of repo "indexChanges repo \<noteq> []" changes "[]" fullDiff]
      assms(3,4) by simp
  have sn: "snd (collectDiffs repo (indexChanges repo \<noteq> []) changes []) = Some fullDiff"
    using assms(4) by simp
  show ?thesis
    using getRepo_filter [OF assms(1)] assms(3) sn nb
    by (simp add: withKey_unfold [OF assms(1)] assms(2) [symmetric] Let_def calls_simps
          scmGenerate_remoteCalls)
qed

lemma panel_remoteCalls_run:
  assumes "getRepo h = (rs, Some repo)"
    and "changes = (if indexChanges repo = [] then workingTreeChanges repo else indexChanges repo)"
    and "changes \<noteq> []"
    and "collectDiffs repo (indexChanges repo \<noteq> []) changes [] = (ds, Some fullDiff)"
    and "(if overrideActive h then the (overrideKey h) else key) = k" and "k \<noteq> []"
  shows "remoteCalls (fst (generateCommitMessage h key s)) = [Fetch (groqRequest k fullDiff)]"
proof -
  have nb: "trim fullDiff \<noteq> []"
    using collectDiffs_nonblank [of repo "indexChanges repo \<noteq> []" changes "[]" fullDiff]
      assms(3,4) by simp
  have sn: "snd (collectDiffs repo (indexChanges repo \<noteq> []) changes []) = Some fullDiff"
    using assms(4) by simp
  show ?thesis
    using getRepo_filter [OF assms(1)] assms(3,6) sn nb
    by (simp add: panel_unfold [OF assms(1)] assms(2) [symmetric] assms(5) Let_def calls_simps
          panelGenerate_remoteCalls)
qed

section \<open>The sample inputs evaluated\<close>

lemma sample_getRepo: "getRepo (sampleHost repo r) = ([], Some repo)"
  by (simp add: getRepo_def sampleHost_def)

lemma sample_fetch: "fetch (sampleHost repo r) q = Some r"
  by (simp add: sampleHost_def)

lemma sample_override: "\<not> overrideActive (sampleHost repo r)"
  by (simp add: overrideActive_def sampleHost_def)

lemma sample_withKey:
  assumes "changes = (if indexChanges repo = [] then workingTreeChanges repo else indexChanges repo)"
    and "changes \<noteq> []"
    and "collectDiffs repo (indexChanges repo \<noteq> []) changes [] = (ds, Some d)"
  shows "generateCommitMessageWithKey (sampleHost repo r) key s =
     (case handleResponse (sampleHost repo r) r of
        Inr result \<Rightarrow>
          ([SetContext ''diffDraft.isGenerating'' (CBool True),
            SetContext ''diffDraft.generatingIcon'' (CNum (int (iconIndex s)))] @ ds @
           [Fetch (groqRequest key d),
            SetContext ''diffDraft.isGenerating'' (CBool False),
            SetContext ''diffDraft.generatingIcon'' (CNum (- 1)),
            SetContext ''diffDraft.isSuccess'' (CBool True),
            SetTimeout 2000 (SetContext ''diffDraft.isSuccess'' (CBool False))] @
           resetGenerating,
           s\<lparr>iconIndex := (iconIndex s + 1) mod 5, inputBoxValue := result\<rparr>)
      | Inl error \<Rightarrow>
          ([SetContext ''diffDraft.isGenerating'' (CBool True),
            SetContext ''diffDraft.generatingIcon'' (CNum (int (iconIndex s)))] @ ds @
           [Fetch (groqRequest key d),
            ShowErrorMessage (groqApiError (sampleHost repo r) error)] @
           resetGenerating,
           s\<lparr>iconIndex := (iconIndex s + 1) mod 5\<rparr>))"
proof -
  have nb: "trim d \<noteq> []"
    using collectDiffs_nonblank [of repo "indexChanges repo \<noteq> []" changes "[]" d] assms(2,3)
    by simp
  have ds: "map (diffEvent (indexChanges repo \<noteq> []))
              (attempted (diffOp repo (indexChanges repo \<noteq> [])) changes) = ds"
    using collectDiffs_calls [of repo "indexChanges repo \<noteq> []" changes "[]"] assms(3) by simp
  have sn: "snd (collectDiffs repo (indexChanges repo \<noteq> []) changes []) = Some d"
    using assms(3) by simp
  show ?thesis
    using assms(2) sn ds
    by (simp add: withKey_unfold [OF sample_getRepo] assms(1) [symmetric] Let_def
          scmGenerate_run [OF sample_fetch nb] split: sum.splits)
qed

lemma sample_panel:
  assumes "changes = (if indexChanges repo = [] then workingTreeChanges repo else indexChanges repo)"
    and "changes \<noteq> []"
    and "collectDiffs repo (indexChanges repo \<noteq> []) changes [] = (ds, Some d)"
    and "key \<noteq> []"
  shows "generateCommitMessage (sampleHost repo r) key s =
     (case handleResponse (sampleHost repo r) r of
        Inr result \<Rightarrow>
          ([PostMessage Loading] @ ds @ [Fetch (groqRequest key d), PostMessage (Result result)], s)
      | Inl error \<Rightarrow>
          ([PostMessage Loading] @ ds @
           [Fetch (groqRequest key d),
            PostMessage (ErrorMessage (groqApiError (sampleHost repo r) error))], s))"
proof -
  have nb: "trim d \<noteq> []"
    using collectDiffs_nonblank [of repo "indexChanges repo \<noteq> []" changes "[]" d] assms(2,3)
    by simp
  have ds: "map (diffEvent (indexChanges repo \<noteq> []))
              (attempted (diffOp repo (indexChanges repo \<noteq> [])) changes) = ds"
    using collectDiffs_calls [of repo "indexChanges repo \<noteq> []" changes "[]"] assms(3) by simp
  have sn: "snd (collectDiffs repo (indexChanges repo \<noteq> []) changes []) = Some d"
    using assms(3) by simp
  show ?thesis
    using assms(2,4) sn ds
    by (simp add: panel_unfold [OF sample_getRepo] assms(1) [symmetric] Let_def sample_override
          panelGenerate_run [OF sample_fetch nb] split: sum.splits)
qed

lemma sample_collect:
  "collectDiffs sampleRepo True [''a.ts''] [] =
     ([DiffIndexWithHEAD ''a.ts''], Some (fileSection ''a.ts'' ''+x''))"
  by (simp add: sampleRepo_def fileSection_def)

lemma sample_changes:
  "indexChanges sampleRepo = [''a.ts'']" "workingTreeChanges sampleRepo = [''b.ts'']"
  by (simp_all add: sampleRepo_def)

lemma unauthorized_response:
  "handleResponse h unauthorized = Inl (Error ''Invalid API Key'')"
  by (simp add: handleResponse_def ok_def notOk_def unauthorized_def invalidKeyBody_def
        errorMessageOf_def newError_def)

lemma serverError_response:
  "handleResponse h serverError = Inl (Error ''Invalid API Key'')"
  by (simp add: handleResponse_def ok_def notOk_def serverError_def invalidKeyBody_def
        errorMessageOf_def newError_def)

lemma generated_response: "handleResponse h generated = Inr ''feat: add x''"
  by (rule okResponse_generated) (simp_all add: ok_def generated_def)

lemma sample_stored: "getStoredApiKey (sampleHost repo r) sampleState = Some ''gsk_old''"
  by (simp add: getStoredApiKey_def sampleHost_def sampleState_def trim_gsk)

lemma sample_forSCM:
  "generateCommitMessageForSCM (sampleHost repo r) sampleState =
   generateCommitMessageWithKey (sampleHost repo r) ''gsk_old'' sampleState"
  using sample_stored sample_override by (rule forSCM_stored)

lemma sampleRepo_withKey:
  "generateCommitMessageWithKey (sampleHost sampleRepo r) key s =
     (case handleResponse (sampleHost sampleRepo r) r of
        Inr result \<Rightarrow>
          ([SetContext ''diffDraft.isGenerating'' (CBool True),
            SetContext ''diffDraft.generatingIcon'' (CNum (int (iconIndex s)))] @
           [DiffIndexWithHEAD ''a.ts''] @
           [Fetch (groqRequest key (fileSection ''a.ts'' ''+x'')),
            SetContext ''diffDraft.isGenerating'' (CBool False),
            SetContext ''diffDraft.generatingIcon'' (CNum (- 1)),
            SetContext ''diffDraft.isSuccess'' (CBool True),
            SetTimeout 2000 (SetContext ''diffDraft.isSuccess'' (CBool False))] @
           resetGenerating,
           s\<lparr>iconIndex := (iconIndex s + 1) mod 5, inputBoxValue := result\<rparr>)
      | Inl error \<Rightarrow>
          ([SetContext ''diffDraft.isGenerating'' (CBool True),
            SetContext ''diffDraft.generatingIcon'' (CNum (int (iconIndex s)))] @
           [DiffIndexWithHEAD ''a.ts''] @
           [Fetch (groqRequest key (fileSection ''a.ts'' ''+x'')),
            ShowErrorMessage (groqApiError (sampleHost sampleRepo r) error)] @
           resetGenerating,
           s\<lparr>iconIndex := (iconIndex s + 1) mod 5\<rparr>))"
  by (rule sample_withKey [where changes = "[''a.ts'']"])
     (simp_all add: sampleRepo_def fileSection_def)

lemma sampleRepo_panel:
  "key \<noteq> [] \<Longrightarrow>
   generateCommitMessage (sampleHost sampleRepo r) key s =
     (case handleResponse (sampleHost sampleRepo r) r of
        Inr result \<Rightarrow>
          ([PostMessage Loading] @ [DiffIndexWithHEAD ''a.ts''] @
           [Fetch (groqRequest key (fileSection ''a.ts'' ''+x'')), PostMessage (Result result)], s)
      | Inl error \<Rightarrow>
          ([PostMessage Loading] @ [DiffIndexWithHEAD ''a.ts''] @
           [Fetch (groqRequest key (fileSection ''a.ts'' ''+x'')),
            PostMessage (ErrorMessage (groqApiError (sampleHost sampleRepo r) error))], s))"
  by (rule sample_panel [where changes = "[''a.ts'']"])
     (simp_all add: sampleRepo_def fileSection_def)

lemma sample_unauthorized_scm:
  "generateCommitMessageForSCM (sampleHost sampleRepo unauthorized) sampleState =
     ([SetContext ''diffDraft.isGenerating'' (CBool True),
       SetContext ''diffDraft.generatingIcon'' (CNum 0),
       DiffIndexWithHEAD ''a.ts'',
       Fetch (groqRequest ''gsk_old'' (fileSection ''a.ts'' ''+x'')),
       ShowErrorMessage ''Groq API Error: Invalid API Key'',
       SetContext ''diffDraft.isGenerating'' (CBool False),
       SetContext ''diffDraft.generatingIcon'' (CNum (- 1))],
      sampleState\<lparr>iconIndex := 1\<rparr>)"
  unfolding sample_forSCM sampleRepo_withKey unauthorized_response
  by (simp add: groqApiError_def resetGenerating_def sampleState_def)

lemma sample_unauthorized_panel:
  "generateCommitMessage (sampleHost sampleRepo unauthorized) ''gsk_old'' sampleState =
     ([PostMessage Loading,
       DiffIndexWithHEAD ''a.ts'',
       Fetch (groqRequest ''gsk_old'' (fileSection ''a.ts'' ''+x'')),
       PostMessage (ErrorMessage ''Groq API Error: Invalid API Key'')],
      sampleState)"
  by (simp add: sampleRepo_panel unauthorized_response groqApiError_def)

lemma sample_diffWith: "diffOp sampleRepo False p = Some ''-y''"
  by (simp add: diffOp_def sampleRepo_def)

lemma sample_diffWithHEAD: "diffWithHEAD sampleRepo p = Some ''-y''"
  by (simp add: sampleRepo_def)

lemma override_getRepo: "getRepo overrideHost = ([], Some sampleRepo)"
  by (simp add: getRepo_def overrideHost_def sampleHost_def)

lemma prompt_store:
  "storeApiKey promptHost '' gsk_new '' emptyState =
     ([SecretStore ''gsk_new''], emptyState\<lparr>secret := Some ''gsk_new''\<rparr>)"
  by (simp add: storeApiKey_def Let_def trim_gsk_new promptHost_def sampleHost_def)

lemma prompt_scm:
  "SecretStore ''gsk_new'' \<in> set (fst (generateCommitMessageForSCM promptHost emptyState))"
proof -
  have a: "getStoredApiKey promptHost emptyState = None"
    by (simp add: getStoredApiKey_def emptyState_def)
  have b: "\<not> overrideActive promptHost"
    by (simp add: overrideActive_def promptHost_def sampleHost_def)
  have c: "inputKey promptHost = Some '' gsk_new ''"
    by (simp add: promptHost_def)
  show ?thesis
    by (simp add: generateCommitMessageForSCM_def promptForKey_def Let_def a b c prompt_store
          case_prod_beta)
qed

lemma forbidden_response:
  "handleResponse h forbidden = Inl (Error ''invalid key'')"
  by (simp add: handleResponse_def ok_def notOk_def forbidden_def errorMessageOf_def
        newError_def)

lemma sample_forbidden_scm:
  "generateCommitMessageForSCM (sampleHost sampleRepo forbidden) sampleState =
     ([SetContext ''diffDraft.isGenerating'' (CBool True),
       SetContext ''diffDraft.generatingIcon'' (CNum 0),
       DiffIndexWithHEAD ''a.ts'',
       Fetch (groqRequest ''gsk_old'' (fileSection ''a.ts'' ''+x'')),
       ShowErrorMessage ''Groq API Error: invalid key'',
       SetContext ''diffDraft.isGenerating'' (CBool False),
       SetContext ''diffDraft.generatingIcon'' (CNum (- 1))],
      sampleState\<lparr>iconIndex := 1\<rparr>)"
  unfolding sample_forSCM sampleRepo_withKey forbidden_response
  by (simp add: groqApiError_def resetGenerating_def sampleState_def)

lemma sample_forbidden_panel:
  "generateCommitMessage (sampleHost sampleRepo forbidden) ''gsk_old'' sampleState =
     ([PostMessage Loading,
       DiffIndexWithHEAD ''a.ts'',
       Fetch (groqRequest ''gsk_old'' (fileSection ''a.ts'' ''+x'')),
       PostMessage (ErrorMessage ''Groq API Error: invalid key'')],
      sampleState)"
  by (simp add: sampleRepo_panel forbidden_response groqApiError_def)

lemma sample_again:
  "ShowInputBox \<notin> set (fst (generateCommitMessageForSCM (sampleHost sampleRepo r)
        (sampleState\<lparr>iconIndex := 1\<rparr>)))"
proof -
  have again: "generateCommitMessageForSCM (sampleHost sampleRepo r)
        (sampleState\<lparr>iconIndex := 1\<rparr>) =
      generateCommitMessageWithKey (sampleHost sampleRepo r) ''gsk_old''
        (sampleState\<lparr>iconIndex := 1\<rparr>)"
    by (rule forSCM_stored)
       (simp_all add: getStoredApiKey_def sampleHost_def sampleState_def trim_gsk
          overrideActive_def)
  show ?thesis
    unfolding again
    using withKey_quiet [of ShowInputBox "sampleHost sampleRepo r" "''gsk_old''"
        "sampleState\<lparr>iconIndex := 1\<rparr>"]
    by blast
qed

lemma nullError_response: "handleResponse h nullError = Inr ''feat: add x''"
  by (simp add: handleResponse_def ok_def okResponse_def nullError_def contentOf_def trim_feat)

lemma override_panel_run:
  "generateCommitMessage overrideHost key sampleState =
     ([PostMessage Loading, DiffIndexWithHEAD ''a.ts'',
       Fetch (groqRequest ''gsk_env'' (fileSection ''a.ts'' ''+x'')),
       PostMessage (Result ''feat: add x'')], sampleState)"
proof -
  have act: "overrideActive overrideHost" "the (overrideKey overrideHost) = ''gsk_env''"
    by (simp_all add: overrideActive_def overrideHost_def trim_def is_ws_def)
  have f: "fetch overrideHost (groqRequest ''gsk_env'' (fileSection ''a.ts'' ''+x'')) = Some generated"
    by (simp add: overrideHost_def sampleHost_def)
  have nb: "trim (fileSection ''a.ts'' ''+x'') \<noteq> []"
    using trim_fileSection [of "[]" "''a.ts''" "''+x''"] by simp
  have at: "attempted (diffOp sampleRepo True) [''a.ts''] = [''a.ts'']"
    by (simp add: diffOp_simps sampleRepo_def)
  show ?thesis
    by (simp add: panel_unfold [OF override_getRepo] Let_def act sample_changes sample_collect at
          diffOp_simps panelGenerate_run [OF f nb] generated_response
          del: collectDiffs.simps)
qed

section \<open>The guard on the aggregated diff\<close>

lemma getRepo_notext:
  "ShowErrorMessage ''No text diff available. Changes may be binary files only.'' \<notin>
     set (fst (getRepo h))"
  "PostMessage (ErrorMessage ''No text diff available. Changes may be binary files only.'') \<notin>
     set (fst (getRepo h))"
  by (auto simp: getRepo_def split: option.splits list.splits if_splits)

lemma diffEvent_notext:
  "ShowErrorMessage ''No text diff available. Changes may be binary files only.'' \<notin>
     diffEvent b ` set cs"
  "PostMessage (ErrorMessage ''No text diff available. Changes may be binary files only.'') \<notin>
     diffEvent b ` set cs"
  by (cases b; auto simp: diffEvent_def)+

lemma groqApiError_notext:
  "groqApiError h e \<noteq> ''No text diff available. Changes may be binary files only.''"
  "''No text diff available. Changes may be binary files only.'' \<noteq> groqApiError h e"
  by (simp_all add: groqApiError_def)

lemma scmGenerate_notext:
  "trim d \<noteq> [] \<Longrightarrow>
   ShowErrorMessage ''No text diff available. Changes may be binary files only.'' \<notin>
     set (fst (scmGenerate h k d s))"
  by (auto simp: scmGenerate_def callGroq_def groqApiError_notext split: sum.splits)

lemma panelGenerate_notext:
  "trim d \<noteq> [] \<Longrightarrow>
   PostMessage (ErrorMessage ''No text diff available. Changes may be binary files only.'') \<notin>
     set (panelGenerate h k d)"
  by (auto simp: panelGenerate_def callGroq_def groqApiError_notext split: sum.splits)

lemma withKey_notext:
  "ShowErrorMessage ''No text diff available. Changes may be binary files only.'' \<notin>
     set (fst (generateCommitMessageWithKey h key s))"
proof (cases "getRepo h")
  case (Pair rs r)
  have rs: "ShowErrorMessage ''No text diff available. Changes may be binary files only.'' \<notin>
     set rs"
    using getRepo_notext(1) [of h] Pair by simp
  show ?thesis
  proof (cases r)
    case None
    then show ?thesis using Pair rs by (simp add: withKey_norepo)
  next
    case (Some repo)
    then have g: "getRepo h = (rs, Some repo)" using Pair by simp
    let ?cs = "if indexChanges repo = [] then workingTreeChanges repo else indexChanges repo"
    let ?st = "indexChanges repo \<noteq> []"
    show ?thesis
    proof (cases "snd (collectDiffs repo ?st ?cs [])")
      case None
      then show ?thesis
        using rs
        by (simp add: withKey_unfold [OF g] Let_def resetGenerating_def diffEvent_notext)
    next
      case (Some d)
      have "?cs \<noteq> [] \<Longrightarrow> trim d \<noteq> []"
        using collectDiffs_nonblank [of repo ?st ?cs "[]" d] Some by simp
      then show ?thesis
        using Some rs
        by (simp add: withKey_unfold [OF g] Let_def resetGenerating_def diffEvent_notext
              scmGenerate_notext)
    qed
  qed
qed

lemma panel_notext:
  "PostMessage (ErrorMessage ''No text diff available. Changes may be binary files only.'') \<notin>
     set (fst (generateCommitMessage h key s))"
proof (cases "getRepo h")
  case (Pair rs r)
  have rs: "PostMessage (ErrorMessage ''No text diff available. Changes may be binary files only.'')
     \<notin> set rs"
    using getRepo_notext(2) [of h] Pair by simp
  show ?thesis
  proof (cases r)
    case None
    then show ?thesis using Pair rs
      by (simp add: generateCommitMessage_def Let_def)
  next
    case (Some repo)
    then have g: "getRepo h = (rs, Some repo)" using Pair by simp
    let ?cs = "if indexChanges repo = [] then workingTreeChanges repo else indexChanges repo"
    let ?st = "indexChanges repo \<noteq> []"
    show ?thesis
    proof (cases "snd (collectDiffs repo ?st ?cs [])")
      case None
      then show ?thesis
        using rs
        by (simp add: panel_unfold [OF g] Let_def diffEvent_notext)
    next
      case (Some d)
      have "?cs \<noteq> [] \<Longrightarrow> trim d \<noteq> []"
        using collectDiffs_nonblank [of repo ?st ?cs "[]" d] Some by simp
      then show ?thesis
        using Some rs
        by (simp add: panel_unfold [OF g] Let_def diffEvent_notext panelGenerate_notext)
    qed
  qed
qed

lemma storeApiKey_notext:
  "ShowErrorMessage ''No text diff available. Changes may be binary files only.'' \<notin>
     set (fst (storeApiKey h k s))"
  by (simp add: storeApiKey_def Let_def)

lemma forSCM_notext:
  "ShowErrorMessage ''No text diff available. Changes may be binary files only.'' \<notin>
     set (fst (generateCommitMessageForSCM h s))"
proof -
  consider
    (warn) "generateCommitMessageForSCM h s =
     ([ShowInputBox, ShowWarningMessage ''API key is required to generate commit message.''], s)"
  | (key) key where "generateCommitMessageForSCM h s = generateCommitMessageWithKey h key s"
  | (input) input where "generateCommitMessageForSCM h s =
         (ShowInputBox # fst (storeApiKey h input s) @
            fst (generateCommitMessageWithKey h input (snd (storeApiKey h input s))),
          snd (generateCommitMessageWithKey h input (snd (storeApiKey h input s))))"
    using forSCM_cases [of h s] by blast
  then show ?thesis
  proof cases
    case warn
    then show ?thesis by simp
  next
    case key
    then show ?thesis using withKey_notext [of h key s] by simp
  next
    case input
    then show ?thesis
      using withKey_notext [of h input "snd (storeApiKey h input s)"]
        storeApiKey_notext [of h input s]
      by simp
  qed
qed

lemma bin_withKey:
  "generateCommitMessageWithKey (sampleHost binRepo generated) key s =
     ([SetContext ''diffDraft.isGenerating'' (CBool True),
       SetContext ''diffDraft.generatingIcon'' (CNum (int (iconIndex s))),
       DiffIndexWithHEAD ''bin.png'',
       Fetch (groqRequest key (fileSection ''bin.png'' [])),
       SetContext ''diffDraft.isGenerating'' (CBool False),
       SetContext ''diffDraft.generatingIcon'' (CNum (- 1)),
       SetContext ''diffDraft.isSuccess'' (CBool True),
       SetTimeout 2000 (SetContext ''diffDraft.isSuccess'' (CBool False)),
       SetContext ''diffDraft.isGenerating'' (CBool False),
       SetContext ''diffDraft.generatingIcon'' (CNum (- 1))],
      s\<lparr>iconIndex := (iconIndex s + 1) mod 5, inputBoxValue := ''feat: add x''\<rparr>)"
proof -
  have "generateCommitMessageWithKey (sampleHost binRepo generated) key s =
     (case handleResponse (sampleHost binRepo generated) generated of
        Inr result \<Rightarrow>
          ([SetContext ''diffDraft.isGenerating'' (CBool True),
            SetContext ''diffDraft.generatingIcon'' (CNum (int (iconIndex s)))] @
           [DiffIndexWithHEAD ''bin.png''] @
           [Fetch (groqRequest key (fileSection ''bin.png'' [])),
            SetContext ''diffDraft.isGenerating'' (CBool False),
            SetContext ''diffDraft.generatingIcon'' (CNum (- 1)),
            SetContext ''diffDraft.isSuccess'' (CBool True),
            SetTimeout 2000 (SetContext ''diffDraft.isSuccess'' (CBool False))] @
           resetGenerating,
           s\<lparr>iconIndex := (iconIndex s + 1) mod 5, inputBoxValue := result\<rparr>)
      | Inl error \<Rightarrow>
          ([SetContext ''diffDraft.isGenerating'' (CBool True),
            SetContext ''diffDraft.generatingIcon'' (CNum (int (iconIndex s)))] @
           [DiffIndexWithHEAD ''bin.png''] @
           [Fetch (groqRequest key (fileSection ''bin.png'' [])),
            ShowErrorMessage (groqApiError (sampleHost binRepo generated) error)] @
           resetGenerating,
           s\<lparr>iconIndex := (iconIndex s + 1) mod 5\<rparr>))"
    by (rule sample_withKey [where changes = "[''bin.png'']"])
       (simp_all add: binRepo_def fileSection_def)
  then show ?thesis
    by (simp add: generated_response resetGenerating_def)
qed

lemma bin_panel:
  "generateCommitMessage (sampleHost binRepo generated) ''gsk_old'' s =
     ([PostMessage Loading,
       DiffIndexWithHEAD ''bin.png'',
       Fetch (groqRequest ''gsk_old'' (fileSection ''bin.png'' [])),
       PostMessage (Result ''feat: add x'')], s)"
proof -
  have "generateCommitMessage (sampleHost binRepo generated) ''gsk_old'' s =
     (case handleResponse (sampleHost binRepo generated) generated of
        Inr result \<Rightarrow>
          ([PostMessage Loading] @ [DiffIndexWithHEAD ''bin.png''] @
           [Fetch (groqRequest ''gsk_old'' (fileSection ''bin.png'' [])),
            PostMessage (Result result)], s)
      | Inl error \<Rightarrow>
          ([PostMessage Loading] @ [DiffIndexWithHEAD ''bin.png''] @
           [Fetch (groqRequest ''gsk_old'' (fileSection ''bin.png'' [])),
            PostMessage (ErrorMessage (groqApiError (sampleHost binRepo generated) error))], s))"
    by (rule sample_panel [where changes = "[''bin.png'']"])
       (simp_all add: binRepo_def fileSection_def)
  then show ?thesis
    by (simp add: generated_response)
qed

section \<open>The claims\<close>

text \<open>
  Claim C1. The release notes say that an authentication error (401/403) clears the
  stored key and asks for a new one; the code has no such step. With the key
  \<open>gsk_old\<close> stored and a staged \<open>a.ts\<close>, a 401 and a 403 are shown as
  "Groq API Error: ..." in both flows, the key is still stored afterwards, and the next
  toolbar run shows no input box. More generally \<open>generateCommitMessageWithKey\<close> never
  changes the stored key and the panel flow changes nothing of the state.
\<close>

theorem C1_auth_failure_keeps_key:
  "status unauthorized = 401 \<and> status forbidden = 403
   \<and> secret sampleState = Some ''gsk_old''
   \<and> generateCommitMessageForSCM (sampleHost sampleRepo unauthorized) sampleState =
       ([SetContext ''diffDraft.isGenerating'' (CBool True),
         SetContext ''diffDraft.generatingIcon'' (CNum 0),
         DiffIndexWithHEAD ''a.ts'',
         Fetch (groqRequest ''gsk_old'' (fileSection ''a.ts'' ''+x'')),
         ShowErrorMessage ''Groq API Error: Invalid API Key'',
         SetContext ''diffDraft.isGenerating'' (CBool False),
         SetContext ''diffDraft.generatingIcon'' (CNum (- 1))],
        sampleState\<lparr>iconIndex := 1\<rparr>)
   \<and> secret (snd (generateCommitMessageForSCM (sampleHost sampleRepo unauthorized) sampleState))
       = Some ''gsk_old''
   \<and> ShowInputBox \<notin> set (fst (generateCommitMessageForSCM (sampleHost sampleRepo unauthorized)
        (snd (generateCommitMessageForSCM (sampleHost sampleRepo unauthorized) sampleState))))
   \<and> generateCommitMessage (sampleHost sampleRepo unauthorized) ''gsk_old'' sampleState =
       ([PostMessage Loading,
         DiffIndexWithHEAD ''a.ts'',
         Fetch (groqRequest ''gsk_old'' (fileSection ''a.ts'' ''+x'')),
         PostMessage (ErrorMessage ''Groq API Error: Invalid API Key'')],
        sampleState)
   \<and> generateCommitMessageForSCM (sampleHost sampleRepo forbidden) sampleState =
       ([SetContext ''diffDraft.isGenerating'' (CBool True),
         SetContext ''diffDraft.generatingIcon'' (CNum 0),
         DiffIndexWithHEAD ''a.ts'',
         Fetch (groqRequest ''gsk_old'' (fileSection ''a.ts'' ''+x'')),
         ShowErrorMessage ''Groq API Error: invalid key'',
         SetContext ''diffDraft.isGenerating'' (CBool False),
         SetContext ''diffDraft.generatingIcon'' (CNum (- 1))],
        sampleState\<lparr>iconIndex := 1\<rparr>)
   \<and> secret (snd (generateCommitMessageForSCM (sampleHost sampleRepo forbidden) sampleState))
       = Some ''gsk_old''
   \<and> ShowInputBox \<notin> set (fst (generateCommitMessageForSCM (sampleHost sampleRepo forbidden)
        (snd (generateCommitMessageForSCM (sampleHost sampleRepo forbidden) sampleState))))
   \<and> generateCommitMessage (sampleHost sampleRepo forbidden) ''gsk_old'' sampleState =
       ([PostMessage Loading,
         DiffIndexWithHEAD ''a.ts'',
         Fetch (groqRequest ''gsk_old'' (fileSection ''a.ts'' ''+x'')),
         PostMessage (ErrorMessage ''Groq API Error: invalid key'')],
        sampleState)
   \<and> secret (snd (generateCommitMessageWithKey h key s)) = secret s
   \<and> snd (generateCommitMessage h key s) = s"
proof -
  have st: "status unauthorized = 401" "status forbidden = 403"
    "secret sampleState = Some ''gsk_old''"
    "secret (sampleState\<lparr>iconIndex := 1\<rparr>) = Some ''gsk_old''"
    by (simp_all add: unauthorized_def forbidden_def sampleState_def)
  have a: "secret (snd (generateCommitMessageForSCM (sampleHost sampleRepo unauthorized)
                     sampleState)) = Some ''gsk_old''"
    "secret (snd (generateCommitMessageForSCM (sampleHost sampleRepo forbidden)
                     sampleState)) = Some ''gsk_old''"
    by (simp_all add: sample_unauthorized_scm sample_forbidden_scm st)
  have b: "ShowInputBox \<notin> set (fst (generateCommitMessageForSCM (sampleHost sampleRepo unauthorized)
        (snd (generateCommitMessageForSCM (sampleHost sampleRepo unauthorized) sampleState))))"
    "ShowInputBox \<notin> set (fst (generateCommitMessageForSCM (sampleHost sampleRepo forbidden)
        (snd (generateCommitMessageForSCM (sampleHost sampleRepo forbidden) sampleState))))"
    unfolding sample_unauthorized_scm sample_forbidden_scm snd_conv
    by (rule sample_again)+
  show ?thesis
    using st(1,2,3) a b sample_unauthorized_scm sample_unauthorized_panel
      sample_forbidden_scm sample_forbidden_panel
      withKey_secret [of h key s] panel_state [of h key s]
    by blast
qed

text \<open>
  Claim C2. With a repository at hand (and, in the panel flow, a key), a non-empty staged
  list is the change set: the diff calls of the invocation are \<open>diffIndexWithHEAD\<close> calls on
  the staged paths, in order, up to the first that rejects, and the whole outcome is the
  same for any other working-tree list and working-tree diff operation. Only when the
  staged list is empty are the diff calls \<open>diffWithHEAD\<close> calls on the working-tree paths.
\<close>

theorem C2_staged_priority:
  assumes "getRepo h = (rs, Some repo)"
  shows "(indexChanges repo \<noteq> [] \<longrightarrow>
            diffCalls (fst (generateCommitMessageWithKey h key s)) =
              map DiffIndexWithHEAD (attempted (diffIndexWithHEAD repo) (indexChanges repo))
          \<and> (overrideActive h \<or> key \<noteq> [] \<longrightarrow>
               diffCalls (fst (generateCommitMessage h key s)) =
                 map DiffIndexWithHEAD (attempted (diffIndexWithHEAD repo) (indexChanges repo)))
          \<and> (getRepo h' = (rs, Some repo') \<and> indexChanges repo' = indexChanges repo \<and>
             diffIndexWithHEAD repo' = diffIndexWithHEAD repo \<and> fetch h' = fetch h \<and>
             faultText h' = faultText h \<and> toText h' = toText h \<and> overrideKey h' = overrideKey h \<longrightarrow>
               generateCommitMessageWithKey h' key s = generateCommitMessageWithKey h key s \<and>
               generateCommitMessage h' key s = generateCommitMessage h key s))
       \<and> (indexChanges repo = [] \<longrightarrow>
            diffCalls (fst (generateCommitMessageWithKey h key s)) =
              map DiffWithHEAD (attempted (diffWithHEAD repo) (workingTreeChanges repo))
          \<and> (overrideActive h \<or> key \<noteq> [] \<longrightarrow>
               diffCalls (fst (generateCommitMessage h key s)) =
                 map DiffWithHEAD (attempted (diffWithHEAD repo) (workingTreeChanges repo))))"
proof -
  have a: "indexChanges repo \<noteq> [] \<Longrightarrow>
            diffCalls (fst (generateCommitMessageWithKey h key s)) =
              map DiffIndexWithHEAD (attempted (diffIndexWithHEAD repo) (indexChanges repo))"
    by (simp add: withKey_diffCalls [OF assms] diffOp_simps)
  have b: "indexChanges repo \<noteq> [] \<Longrightarrow> overrideActive h \<or> key \<noteq> [] \<Longrightarrow>
               diffCalls (fst (generateCommitMessage h key s)) =
                 map DiffIndexWithHEAD (attempted (diffIndexWithHEAD repo) (indexChanges repo))"
    by (simp add: panel_diffCalls [OF assms] diffOp_simps)
  have c: "generateCommitMessageWithKey h' key s = generateCommitMessageWithKey h key s \<and>
           generateCommitMessage h' key s = generateCommitMessage h key s"
    if ne: "indexChanges repo \<noteq> []" and r': "getRepo h' = (rs, Some repo')"
      and i: "indexChanges repo' = indexChanges repo"
      and d: "diffIndexWithHEAD repo' = diffIndexWithHEAD repo"
      and f: "fetch h' = fetch h" "faultText h' = faultText h" "toText h' = toText h"
      and ov: "overrideKey h' = overrideKey h"
  proof -
    have oa: "overrideActive h' = overrideActive h"
      by (simp add: overrideActive_def ov)
    have cd: "collectDiffs repo' True (indexChanges repo) [] = collectDiffs repo True (indexChanges repo) []"
      using d by (rule collectDiffs_staged_cong)
    have at: "attempted (diffOp repo' True) (indexChanges repo) = attempted (diffOp repo True) (indexChanges repo)"
      by (simp add: diffOp_simps d)
    show ?thesis
      using ne
      by (simp add: withKey_unfold [OF assms] withKey_unfold [OF r'] panel_unfold [OF assms]
            panel_unfold [OF r'] i cd at oa ov Let_def scmGenerate_cong [OF f] panelGenerate_cong [OF f]
            cong: option.case_cong)
  qed
  have e: "indexChanges repo = [] \<Longrightarrow>
            diffCalls (fst (generateCommitMessageWithKey h key s)) =
              map DiffWithHEAD (attempted (diffWithHEAD repo) (workingTreeChanges repo))"
    by (simp add: withKey_diffCalls [OF assms] diffOp_simps)
  have g: "indexChanges repo = [] \<Longrightarrow> overrideActive h \<or> key \<noteq> [] \<Longrightarrow>
               diffCalls (fst (generateCommitMessage h key s)) =
                 map DiffWithHEAD (attempted (diffWithHEAD repo) (workingTreeChanges repo))"
    by (simp add: panel_diffCalls [OF assms] diffOp_simps)
  show ?thesis using a b c e g by blast
qed

text \<open>
  At the sample host the staged file is diffed against the index and another working tree changes nothing; with nothing staged the working-tree file is diffed.
\<close>

theorem C2_staged_priority_witness:
  "getRepo (sampleHost sampleRepo generated) = ([], Some sampleRepo)
   \<and> indexChanges sampleRepo \<noteq> []
   \<and> getRepo (sampleHost otherTreeRepo generated) = ([], Some otherTreeRepo)
   \<and> workingTreeChanges otherTreeRepo \<noteq> workingTreeChanges sampleRepo
   \<and> diffCalls (fst (generateCommitMessageWithKey (sampleHost sampleRepo generated) ''gsk_old''
                       sampleState)) = [DiffIndexWithHEAD ''a.ts'']
   \<and> diffCalls (fst (generateCommitMessage (sampleHost sampleRepo generated) ''gsk_old''
                       sampleState)) = [DiffIndexWithHEAD ''a.ts'']
   \<and> generateCommitMessageWithKey (sampleHost otherTreeRepo generated) ''gsk_old'' sampleState =
       generateCommitMessageWithKey (sampleHost sampleRepo generated) ''gsk_old'' sampleState
   \<and> generateCommitMessage (sampleHost otherTreeRepo generated) ''gsk_old'' sampleState =
       generateCommitMessage (sampleHost sampleRepo generated) ''gsk_old'' sampleState
   \<and> getRepo (sampleHost unstagedRepo generated) = ([], Some unstagedRepo)
   \<and> indexChanges unstagedRepo = []
   \<and> diffCalls (fst (generateCommitMessageWithKey (sampleHost unstagedRepo generated) ''gsk_old''
                       sampleState)) = [DiffWithHEAD ''b.ts'']
   \<and> diffCalls (fst (generateCommitMessage (sampleHost unstagedRepo generated) ''gsk_old''
                       sampleState)) = [DiffWithHEAD ''b.ts'']"
proof -
  have h1: "getRepo (sampleHost sampleRepo generated) = ([], Some sampleRepo)"
    by (rule sample_getRepo)
  have h2: "getRepo (sampleHost otherTreeRepo generated) = ([], Some otherTreeRepo)"
    by (rule sample_getRepo)
  have h3: "getRepo (sampleHost unstagedRepo generated) = ([], Some unstagedRepo)"
    by (rule sample_getRepo)
  have i1: "indexChanges sampleRepo \<noteq> []" by (simp add: sampleRepo_def)
  have i3: "indexChanges unstagedRepo = []" by (simp add: unstagedRepo_def)
  have w: "workingTreeChanges otherTreeRepo \<noteq> workingTreeChanges sampleRepo"
    by (simp add: otherTreeRepo_def sampleRepo_def)
  have same: "indexChanges otherTreeRepo = indexChanges sampleRepo"
    "diffIndexWithHEAD otherTreeRepo = diffIndexWithHEAD sampleRepo"
    "fetch (sampleHost otherTreeRepo generated) = fetch (sampleHost sampleRepo generated)"
    "faultText (sampleHost otherTreeRepo generated) = faultText (sampleHost sampleRepo generated)"
    "toText (sampleHost otherTreeRepo generated) = toText (sampleHost sampleRepo generated)"
    "overrideKey (sampleHost otherTreeRepo generated) =
       overrideKey (sampleHost sampleRepo generated)"
    by (simp_all add: otherTreeRepo_def sampleHost_def)
  have key: "''gsk_old'' \<noteq> []" by simp
  have at1: "attempted (diffIndexWithHEAD sampleRepo) (indexChanges sampleRepo) = [''a.ts'']"
    by (simp add: sampleRepo_def)
  have at3: "attempted (diffWithHEAD unstagedRepo) (workingTreeChanges unstagedRepo) = [''b.ts'']"
    by (simp add: unstagedRepo_def sampleRepo_def)
  note T1 = C2_staged_priority [OF h1, of "''gsk_old''" sampleState
      "sampleHost otherTreeRepo generated" otherTreeRepo]
  note T3 = C2_staged_priority [OF h3, of "''gsk_old''" sampleState]
  have c1: "diffCalls (fst (generateCommitMessageWithKey (sampleHost sampleRepo generated) ''gsk_old''
                       sampleState)) = [DiffIndexWithHEAD ''a.ts'']"
    using T1 i1 by (simp add: at1)
  have c2: "diffCalls (fst (generateCommitMessage (sampleHost sampleRepo generated) ''gsk_old''
                       sampleState)) = [DiffIndexWithHEAD ''a.ts'']"
    using T1 i1 key by (simp add: at1)
  have c3: "generateCommitMessageWithKey (sampleHost otherTreeRepo generated) ''gsk_old'' sampleState =
       generateCommitMessageWithKey (sampleHost sampleRepo generated) ''gsk_old'' sampleState"
    using T1 i1 h2 same by blast
  have c4: "generateCommitMessage (sampleHost otherTreeRepo generated) ''gsk_old'' sampleState =
       generateCommitMessage (sampleHost sampleRepo generated) ''gsk_old'' sampleState"
    using T1 i1 h2 same by blast
  have c5: "diffCalls (fst (generateCommitMessageWithKey (sampleHost unstagedRepo generated) ''gsk_old''
                       sampleState)) = [DiffWithHEAD ''b.ts'']"
    using T3 i3 by (simp add: at3)
  have c6: "diffCalls (fst (generateCommitMessage (sampleHost unstagedRepo generated) ''gsk_old''
                       sampleState)) = [DiffWithHEAD ''b.ts'']"
    using T3 i3 key by (simp add: at3)
  show ?thesis
    using h1 i1 h2 w c1 c2 c3 c4 h3 i3 c5 c6 by blast
qed

text \<open>
  Claim C3, as amended. \<open>callGroq\<close> handles a response in this order.
  (1) A status outside 200 to 299 fails with an \<open>Error\<close>. Its message is the
  \<open>error.message\<close> of the body when the body parses to a value other than \<open>null\<close> and
  that member is truthy (a string as it is, any other value as the runtime prints it),
  and "HTTP <status>: <reason>" when the body does not parse, is \<open>null\<close>, or has no
  truthy \<open>error.message\<close>.
  (2) A success status whose body has a truthy \<open>error\<close> member fails with an \<open>Error\<close>
  whose message is the \<open>message\<close> of that member when it is truthy, and
  "API returned an error." otherwise.
  (3) A success whose \<open>choices[0].message.content\<close> is missing, \<open>null\<close>, or a string
  that is empty after trimming fails with "API returned empty response.".
  (4) A success whose content is a string that is not empty after trimming returns it
  trimmed.
  A success whose body does not parse or is \<open>null\<close>, or whose content is neither a
  string nor \<open>null\<close>, fails with the error that the runtime raises.
\<close>

theorem C3_response_order:
  assumes "fetch h (groqRequest apiKey diff) = Some r"
  shows "(\<not> ok r \<longrightarrow>
            (\<exists>m. snd (callGroq h apiKey diff) = Inl (Error m))
          \<and> (body r = Some x \<and> x \<noteq> JNull \<and> errorMessageOf x = Some v \<and> truthy (Some v) \<longrightarrow>
               snd (callGroq h apiKey diff) =
                 Inl (Error (case v of JStr m \<Rightarrow> m | _ \<Rightarrow> toText h v)))
          \<and> (body r = None \<or> body r = Some JNull \<or>
             (body r = Some x \<and> \<not> truthy (errorMessageOf x)) \<longrightarrow>
               snd (callGroq h apiKey diff) =
                 Inl (Error (''HTTP '' @ decimal (status r) @ '': '' @ statusText r))))
       \<and> (ok r \<and> body r = None \<longrightarrow> snd (callGroq h apiKey diff) = Inl (Fault JsonRejected))
       \<and> (ok r \<and> body r = Some JNull \<longrightarrow>
            snd (callGroq h apiKey diff) = Inl (Fault NullProperty))
       \<and> (ok r \<and> body r = Some x \<and> x \<noteq> JNull \<and> truthy (property ''error'' x) \<longrightarrow>
            (errorMessageOf x = Some v \<and> truthy (Some v) \<longrightarrow>
               snd (callGroq h apiKey diff) =
                 Inl (Error (case v of JStr m \<Rightarrow> m | _ \<Rightarrow> toText h v)))
          \<and> (\<not> truthy (errorMessageOf x) \<longrightarrow>
               snd (callGroq h apiKey diff) = Inl (Error ''API returned an error.'')))
       \<and> (ok r \<and> body r = Some x \<and> x \<noteq> JNull \<and> \<not> truthy (property ''error'' x) \<longrightarrow>
            (contentOf x = None \<or> contentOf x = Some JNull \<or>
             (contentOf x = Some (JStr text) \<and> (\<forall>c \<in> set text. is_ws c)) \<longrightarrow>
               snd (callGroq h apiKey diff) = Inl (Error ''API returned empty response.''))
          \<and> (contentOf x = Some (JStr text) \<and> \<not> (\<forall>c \<in> set text. is_ws c) \<longrightarrow>
               snd (callGroq h apiKey diff) = Inr (trim text))
          \<and> (contentOf x = Some v \<and> v \<noteq> JNull \<and> (\<forall>t. v \<noteq> JStr t) \<longrightarrow>
               snd (callGroq h apiKey diff) = Inl (Fault NotAFunction)))"
proof -
  have cg: "snd (callGroq h apiKey diff) = handleResponse h r"
    using assms by (simp add: callGroq_def)
  have n1: "\<exists>m. handleResponse h r = Inl (Error m)" if "\<not> ok r"
    using that notOk_is_Error [of h r] by (simp add: handleResponse_def)
  have n2: "handleResponse h r = Inl (Error (case v of JStr m \<Rightarrow> m | _ \<Rightarrow> toText h v))"
    if "\<not> ok r" "body r = Some x" "x \<noteq> JNull" "errorMessageOf x = Some v" "truthy (Some v)"
    using that
    by (simp add: handleResponse_def notOk_body or_else_truthy newError_text del: or_else.simps)
  have n3: "handleResponse h r =
                 Inl (Error (''HTTP '' @ decimal (status r) @ '': '' @ statusText r))"
    if "\<not> ok r" "body r = None \<or> body r = Some JNull \<or>
             (body r = Some x \<and> \<not> truthy (errorMessageOf x))"
    using that notOk_no_body [of r h] notOk_body [of r x h]
    by (cases "x = JNull") (auto simp: handleResponse_def newError_JStr or_else_falsy)
  have f1: "handleResponse h r = Inl (Fault JsonRejected)" if "ok r" "body r = None"
    using that by (simp add: handleResponse_def okResponse_def)
  have f2: "handleResponse h r = Inl (Fault NullProperty)" if "ok r" "body r = Some JNull"
    using that by (simp add: handleResponse_def okResponse_def)
  have e1: "handleResponse h r = Inl (Error (case v of JStr m \<Rightarrow> m | _ \<Rightarrow> toText h v))"
    if "ok r" "body r = Some x" "x \<noteq> JNull" "truthy (property ''error'' x)"
       "errorMessageOf x = Some v" "truthy (Some v)"
    using that
    by (simp add: handleResponse_def okResponse_body or_else_truthy newError_text
          del: or_else.simps)
  have e2: "handleResponse h r = Inl (Error ''API returned an error.'')"
    if "ok r" "body r = Some x" "x \<noteq> JNull" "truthy (property ''error'' x)"
       "\<not> truthy (errorMessageOf x)"
    using that
    by (simp add: handleResponse_def okResponse_body newError_JStr or_else_falsy)
  have c1: "handleResponse h r = Inl (Error ''API returned empty response.'')"
    if "ok r" "body r = Some x" "x \<noteq> JNull" "\<not> truthy (property ''error'' x)"
       "contentOf x = None \<or> contentOf x = Some JNull \<or>
             (contentOf x = Some (JStr text) \<and> (\<forall>c \<in> set text. is_ws c))"
    using that
    by (auto simp: handleResponse_def okResponse_body trim_Nil_iff)
  have c2: "handleResponse h r = Inr (trim text)"
    if "ok r" "body r = Some x" "x \<noteq> JNull" "\<not> truthy (property ''error'' x)"
       "contentOf x = Some (JStr text)" "\<not> (\<forall>c \<in> set text. is_ws c)"
    using that
    by (auto simp: handleResponse_def okResponse_body trim_Nil_iff)
  have c3: "handleResponse h r = Inl (Fault NotAFunction)"
    if "ok r" "body r = Some x" "x \<noteq> JNull" "\<not> truthy (property ''error'' x)"
       "contentOf x = Some v" "v \<noteq> JNull" "\<forall>t. v \<noteq> JStr t"
    using that
    by (cases v) (simp_all add: handleResponse_def okResponse_body)
  have A: "\<not> ok r \<longrightarrow>
            (\<exists>m. handleResponse h r = Inl (Error m))
          \<and> (body r = Some x \<and> x \<noteq> JNull \<and> errorMessageOf x = Some v \<and> truthy (Some v) \<longrightarrow>
               handleResponse h r =
                 Inl (Error (case v of JStr m \<Rightarrow> m | _ \<Rightarrow> toText h v)))
          \<and> (body r = None \<or> body r = Some JNull \<or>
             (body r = Some x \<and> \<not> truthy (errorMessageOf x)) \<longrightarrow>
               handleResponse h r =
                 Inl (Error (''HTTP '' @ decimal (status r) @ '': '' @ statusText r)))"
    using n1 n2 n3 by (intro impI conjI) blast+
  have B: "ok r \<and> body r = None \<longrightarrow> handleResponse h r = Inl (Fault JsonRejected)"
    using f1 by blast
  have C: "ok r \<and> body r = Some JNull \<longrightarrow> handleResponse h r = Inl (Fault NullProperty)"
    using f2 by blast
  have D: "ok r \<and> body r = Some x \<and> x \<noteq> JNull \<and> truthy (property ''error'' x) \<longrightarrow>
            (errorMessageOf x = Some v \<and> truthy (Some v) \<longrightarrow>
               handleResponse h r =
                 Inl (Error (case v of JStr m \<Rightarrow> m | _ \<Rightarrow> toText h v)))
          \<and> (\<not> truthy (errorMessageOf x) \<longrightarrow>
               handleResponse h r = Inl (Error ''API returned an error.''))"
    using e1 e2 by (intro impI conjI) blast+
  have E: "ok r \<and> body r = Some x \<and> x \<noteq> JNull \<and> \<not> truthy (property ''error'' x) \<longrightarrow>
            (contentOf x = None \<or> contentOf x = Some JNull \<or>
             (contentOf x = Some (JStr text) \<and> (\<forall>c \<in> set text. is_ws c)) \<longrightarrow>
               handleResponse h r = Inl (Error ''API returned empty response.''))
          \<and> (contentOf x = Some (JStr text) \<and> \<not> (\<forall>c \<in> set text. is_ws c) \<longrightarrow>
               handleResponse h r = Inr (trim text))
          \<and> (contentOf x = Some v \<and> v \<noteq> JNull \<and> (\<forall>t. v \<noteq> JStr t) \<longrightarrow>
               handleResponse h r = Inl (Fault NotAFunction))"
    using c1 c2 c3 by (intro impI conjI) blast+
  show ?thesis
    unfolding cg by (intro conjI A B C D E)
qed

text \<open>
  One response for each branch: a 401 with an error body, a 401 whose message is a number,
  a 503 without body, a 200 that is not JSON, a 200 that is null, a 200 with an error
  message, a 200 with an error member without message, a 200 without choices, a 200 with
  content, and a 200 whose content is a number.
\<close>

theorem C3_response_order_witness:
  "\<not> ok unauthorized
   \<and> snd (callGroq (sampleHost sampleRepo unauthorized) ''gsk_old'' ''+x'') =
       Inl (Error ''Invalid API Key'')
   \<and> \<not> ok coded
   \<and> snd (callGroq (sampleHost sampleRepo coded) ''gsk_old'' ''+x'') =
       Inl (Error (toText (sampleHost sampleRepo coded) (JNum 42)))
   \<and> \<not> ok unavailable \<and> body unavailable = None
   \<and> snd (callGroq (sampleHost sampleRepo unavailable) ''gsk_old'' ''+x'') =
       Inl (Error ''HTTP 503: Service Unavailable'')
   \<and> ok garbled \<and> body garbled = None
   \<and> snd (callGroq (sampleHost sampleRepo garbled) ''gsk_old'' ''+x'') =
       Inl (Fault JsonRejected)
   \<and> ok nullBody \<and> body nullBody = Some JNull
   \<and> snd (callGroq (sampleHost sampleRepo nullBody) ''gsk_old'' ''+x'') =
       Inl (Fault NullProperty)
   \<and> ok quota
   \<and> snd (callGroq (sampleHost sampleRepo quota) ''gsk_old'' ''+x'') =
       Inl (Error ''quota exceeded'')
   \<and> ok refused
   \<and> snd (callGroq (sampleHost sampleRepo refused) ''gsk_old'' ''+x'') =
       Inl (Error ''API returned an error.'')
   \<and> ok noChoices
   \<and> snd (callGroq (sampleHost sampleRepo noChoices) ''gsk_old'' ''+x'') =
       Inl (Error ''API returned empty response.'')
   \<and> ok generated
   \<and> snd (callGroq (sampleHost sampleRepo generated) ''gsk_old'' ''+x'') = Inr ''feat: add x''
   \<and> ok numberContent
   \<and> snd (callGroq (sampleHost sampleRepo numberContent) ''gsk_old'' ''+x'') =
       Inl (Fault NotAFunction)"
proof -
  have f: "fetch (sampleHost sampleRepo r) (groqRequest ''gsk_old'' ''+x'') = Some r" for r
    by (rule sample_fetch)
  have o1: "\<not> ok unauthorized" by (simp add: ok_def unauthorized_def)
  have b1: "body unauthorized = Some invalidKeyBody" "invalidKeyBody \<noteq> JNull"
    "errorMessageOf invalidKeyBody = Some (JStr ''Invalid API Key'')"
    "truthy (Some (JStr ''Invalid API Key''))"
    by (simp_all add: unauthorized_def invalidKeyBody_def errorMessageOf_def)
  have c1: "snd (callGroq (sampleHost sampleRepo unauthorized) ''gsk_old'' ''+x'') =
       Inl (Error ''Invalid API Key'')"
    using C3_response_order [OF f, of unauthorized invalidKeyBody "JStr ''Invalid API Key''",
        THEN conjunct1] o1 b1
    by simp
  have o2: "\<not> ok coded" by (simp add: ok_def coded_def)
  have b2: "body coded = Some (JObj [(''error'', JObj [(''message'', JNum 42)])])"
    "JObj [(''error'', JObj [(''message'', JNum 42)])] \<noteq> JNull"
    "errorMessageOf (JObj [(''error'', JObj [(''message'', JNum 42)])]) = Some (JNum 42)"
    "truthy (Some (JNum 42))"
    by (simp_all add: coded_def errorMessageOf_def)
  have c2: "snd (callGroq (sampleHost sampleRepo coded) ''gsk_old'' ''+x'') =
       Inl (Error (toText (sampleHost sampleRepo coded) (JNum 42)))"
    using C3_response_order [OF f, of coded "JObj [(''error'', JObj [(''message'', JNum 42)])]"
        "JNum 42", THEN conjunct1] o2 b2
    by simp
  have o3: "\<not> ok unavailable" "body unavailable = None"
    by (simp_all add: ok_def unavailable_def)
  have d3: "''HTTP '' @ decimal (status unavailable) @ '': '' @ statusText unavailable =
            ''HTTP 503: Service Unavailable''"
  proof -
    have "decimal 503 = ''503''" by code_simp
    then show ?thesis by (simp add: unavailable_def)
  qed
  have c3: "snd (callGroq (sampleHost sampleRepo unavailable) ''gsk_old'' ''+x'') =
       Inl (Error ''HTTP 503: Service Unavailable'')"
    using C3_response_order [OF f, of unavailable, THEN conjunct1] o3 unfolding d3 by blast
  have o4: "ok garbled" "body garbled = None"
    by (simp_all add: ok_def garbled_def)
  have c4: "snd (callGroq (sampleHost sampleRepo garbled) ''gsk_old'' ''+x'') =
       Inl (Fault JsonRejected)"
    using C3_response_order [OF f, of garbled, THEN conjunct2, THEN conjunct1] o4 by blast
  have o5: "ok nullBody" "body nullBody = Some JNull"
    by (simp_all add: ok_def nullBody_def)
  have c5: "snd (callGroq (sampleHost sampleRepo nullBody) ''gsk_old'' ''+x'') =
       Inl (Fault NullProperty)"
    using C3_response_order [OF f, of nullBody, THEN conjunct2, THEN conjunct2, THEN conjunct1]
      o5 by blast
  have o6: "ok quota" by (simp add: ok_def quota_def)
  have b6: "body quota = Some (JObj [(''error'', JObj [(''message'', JStr ''quota exceeded'')])])"
    "JObj [(''error'', JObj [(''message'', JStr ''quota exceeded'')])] \<noteq> JNull"
    "truthy (property ''error'' (JObj [(''error'', JObj [(''message'', JStr ''quota exceeded'')])]))"
    "errorMessageOf (JObj [(''error'', JObj [(''message'', JStr ''quota exceeded'')])]) =
       Some (JStr ''quota exceeded'')"
    "truthy (Some (JStr ''quota exceeded''))"
    by (simp_all add: quota_def errorMessageOf_def)
  have c6: "snd (callGroq (sampleHost sampleRepo quota) ''gsk_old'' ''+x'') =
       Inl (Error ''quota exceeded'')"
    using C3_response_order [OF f, of quota
        "JObj [(''error'', JObj [(''message'', JStr ''quota exceeded'')])]"
        "JStr ''quota exceeded''",
        THEN conjunct2, THEN conjunct2, THEN conjunct2, THEN conjunct1] o6 b6
    by simp
  have o7: "ok refused" by (simp add: ok_def refused_def)
  have b7: "body refused = Some (JObj [(''error'', JObj [(''code'', JNum 1)])])"
    "JObj [(''error'', JObj [(''code'', JNum 1)])] \<noteq> JNull"
    "truthy (property ''error'' (JObj [(''error'', JObj [(''code'', JNum 1)])]))"
    "\<not> truthy (errorMessageOf (JObj [(''error'', JObj [(''code'', JNum 1)])]))"
    by (simp_all add: refused_def errorMessageOf_def)
  have c7: "snd (callGroq (sampleHost sampleRepo refused) ''gsk_old'' ''+x'') =
       Inl (Error ''API returned an error.'')"
    using C3_response_order [OF f, of refused "JObj [(''error'', JObj [(''code'', JNum 1)])]",
        THEN conjunct2, THEN conjunct2, THEN conjunct2, THEN conjunct1] o7 b7
    by blast
  have o8: "ok noChoices" by (simp add: ok_def noChoices_def)
  have b8: "body noChoices = Some (JObj [(''choices'', JArr [])])"
    "JObj [(''choices'', JArr [])] \<noteq> JNull"
    "\<not> truthy (property ''error'' (JObj [(''choices'', JArr [])]))"
    "contentOf (JObj [(''choices'', JArr [])]) = None"
    by (simp_all add: noChoices_def contentOf_def)
  have c8: "snd (callGroq (sampleHost sampleRepo noChoices) ''gsk_old'' ''+x'') =
       Inl (Error ''API returned empty response.'')"
    using C3_response_order [OF f, of noChoices "JObj [(''choices'', JArr [])]",
        THEN conjunct2, THEN conjunct2, THEN conjunct2, THEN conjunct2] o8 b8
    by blast
  have o9: "ok generated" by (simp add: ok_def generated_def)
  have b9: "body generated = Some (JObj [(''choices'',
                 JArr [JObj [(''message'', JObj [(''content'', JStr '' feat: add x '')])]])])"
    "JObj [(''choices'',
                 JArr [JObj [(''message'', JObj [(''content'', JStr '' feat: add x '')])]])] \<noteq> JNull"
    "\<not> truthy (property ''error'' (JObj [(''choices'',
                 JArr [JObj [(''message'', JObj [(''content'', JStr '' feat: add x '')])]])]))"
    "contentOf (JObj [(''choices'',
                 JArr [JObj [(''message'', JObj [(''content'', JStr '' feat: add x '')])]])]) =
       Some (JStr '' feat: add x '')"
    "\<not> (\<forall>c \<in> set '' feat: add x ''. is_ws c)"
    by (simp_all add: generated_def contentOf_def is_ws_def)
  have c9: "snd (callGroq (sampleHost sampleRepo generated) ''gsk_old'' ''+x'') = Inr ''feat: add x''"
    using C3_response_order [OF f, of generated "JObj [(''choices'',
                 JArr [JObj [(''message'', JObj [(''content'', JStr '' feat: add x '')])]])]" _
            "'' feat: add x ''",
        THEN conjunct2, THEN conjunct2, THEN conjunct2, THEN conjunct2] o9 b9
    unfolding trim_feat by blast
  have o10: "ok numberContent" by (simp add: ok_def numberContent_def)
  have b10: "body numberContent = Some (JObj [(''choices'',
                 JArr [JObj [(''message'', JObj [(''content'', JNum 7)])]])])"
    "JObj [(''choices'', JArr [JObj [(''message'', JObj [(''content'', JNum 7)])]])] \<noteq> JNull"
    "\<not> truthy (property ''error'' (JObj [(''choices'',
                 JArr [JObj [(''message'', JObj [(''content'', JNum 7)])]])]))"
    "contentOf (JObj [(''choices'',
                 JArr [JObj [(''message'', JObj [(''content'', JNum 7)])]])]) = Some (JNum 7)"
    "JNum 7 \<noteq> JNull" "\<forall>t. JNum 7 \<noteq> JStr t"
    by (simp_all add: numberContent_def contentOf_def)
  have c10: "snd (callGroq (sampleHost sampleRepo numberContent) ''gsk_old'' ''+x'') =
       Inl (Fault NotAFunction)"
    using C3_response_order [OF f, of numberContent "JObj [(''choices'',
                 JArr [JObj [(''message'', JObj [(''content'', JNum 7)])]])]" "JNum 7",
        THEN conjunct2, THEN conjunct2, THEN conjunct2, THEN conjunct2] o10 b10
    by blast
  show ?thesis
    by (intro conjI o1 c1 o2 c2 o3 c3 o4 c4 o5 c5 o6 c6 o7 c7 o8 c8 o9 c9 o10 c10)
qed

text \<open>
  As first worded, the failure would carry the status, and a success body with an error
  member would fail. A 401 and a 500 with the same body give the caller the same value,
  and a success body whose error member is null gives the generated text.
\<close>

theorem C3_status_not_carried_counterexample:
  "status unauthorized = 401 \<and> status serverError = 500
   \<and> snd (callGroq (sampleHost sampleRepo unauthorized) ''gsk_old'' ''+x'') =
       Inl (Error ''Invalid API Key'')
   \<and> snd (callGroq (sampleHost sampleRepo serverError) ''gsk_old'' ''+x'') =
       Inl (Error ''Invalid API Key'')
   \<and> snd (callGroq (sampleHost sampleRepo unauthorized) ''gsk_old'' ''+x'') =
       snd (callGroq (sampleHost sampleRepo serverError) ''gsk_old'' ''+x'')
   \<and> ok nullError
   \<and> body nullError =
       Some (JObj [(''error'', JNull),
               (''choices'',
                JArr [JObj [(''message'', JObj [(''content'', JStr '' feat: add x '')])]])])
   \<and> snd (callGroq (sampleHost sampleRepo nullError) ''gsk_old'' ''+x'') = Inr ''feat: add x''"
proof -
  have a: "status unauthorized = 401" "status serverError = 500" "ok nullError"
    "body nullError =
       Some (JObj [(''error'', JNull),
               (''choices'',
                JArr [JObj [(''message'', JObj [(''content'', JStr '' feat: add x '')])]])])"
    by (simp_all add: unauthorized_def serverError_def nullError_def ok_def)
  have b: "snd (callGroq (sampleHost sampleRepo r) ''gsk_old'' ''+x'') =
      handleResponse (sampleHost sampleRepo r) r" for r
    by (simp add: callGroq_def sample_fetch)
  show ?thesis
    using a by (simp add: b unauthorized_response serverError_response nullError_response)
qed

text \<open>
  Claim C4. The guard on the aggregated diff is meant for changes without text diff
  ("Changes may be binary files only."), but it looks at the aggregate after the marker
  lines are in it. For a staged \<open>bin.png\<close> whose diff is empty the aggregate is the
  marker line alone, which is not blank: both flows send it to the remote API and show a
  result. The "No text diff available" message is in no trace of either flow, whatever
  the host, the key and the state.
\<close>

theorem C4_binary_only_is_sent:
  "indexChanges binRepo = [''bin.png'']
   \<and> diffIndexWithHEAD binRepo ''bin.png'' = Some []
   \<and> generateCommitMessageForSCM (sampleHost binRepo generated) sampleState =
       ([SetContext ''diffDraft.isGenerating'' (CBool True),
         SetContext ''diffDraft.generatingIcon'' (CNum 0),
         DiffIndexWithHEAD ''bin.png'',
         Fetch (groqRequest ''gsk_old'' ([nl] @ ''--- File: bin.png ---'' @ [nl])),
         SetContext ''diffDraft.isGenerating'' (CBool False),
         SetContext ''diffDraft.generatingIcon'' (CNum (- 1)),
         SetContext ''diffDraft.isSuccess'' (CBool True),
         SetTimeout 2000 (SetContext ''diffDraft.isSuccess'' (CBool False)),
         SetContext ''diffDraft.isGenerating'' (CBool False),
         SetContext ''diffDraft.generatingIcon'' (CNum (- 1))],
        sampleState\<lparr>iconIndex := 1, inputBoxValue := ''feat: add x''\<rparr>)
   \<and> generateCommitMessage (sampleHost binRepo generated) ''gsk_old'' sampleState =
       ([PostMessage Loading,
         DiffIndexWithHEAD ''bin.png'',
         Fetch (groqRequest ''gsk_old'' ([nl] @ ''--- File: bin.png ---'' @ [nl])),
         PostMessage (Result ''feat: add x'')], sampleState)
   \<and> ShowErrorMessage ''No text diff available. Changes may be binary files only.'' \<notin>
       set (fst (generateCommitMessageForSCM h s))
   \<and> PostMessage (ErrorMessage ''No text diff available. Changes may be binary files only.'') \<notin>
       set (fst (generateCommitMessage h key s))"
proof -
  have a: "indexChanges binRepo = [''bin.png'']" "diffIndexWithHEAD binRepo ''bin.png'' = Some []"
    by (simp_all add: binRepo_def)
  have fs: "fileSection ''bin.png'' [] = [nl] @ ''--- File: bin.png ---'' @ [nl]"
    by (simp add: fileSection_def)
  have i0: "iconIndex sampleState = 0" by (simp add: sampleState_def)
  have b: "generateCommitMessageForSCM (sampleHost binRepo generated) sampleState =
       ([SetContext ''diffDraft.isGenerating'' (CBool True),
         SetContext ''diffDraft.generatingIcon'' (CNum 0),
         DiffIndexWithHEAD ''bin.png'',
         Fetch (groqRequest ''gsk_old'' ([nl] @ ''--- File: bin.png ---'' @ [nl])),
         SetContext ''diffDraft.isGenerating'' (CBool False),
         SetContext ''diffDraft.generatingIcon'' (CNum (- 1)),
         SetContext ''diffDraft.isSuccess'' (CBool True),
         SetTimeout 2000 (SetContext ''diffDraft.isSuccess'' (CBool False)),
         SetContext ''diffDraft.isGenerating'' (CBool False),
         SetContext ''diffDraft.generatingIcon'' (CNum (- 1))],
        sampleState\<lparr>iconIndex := 1, inputBoxValue := ''feat: add x''\<rparr>)"
    unfolding sample_forSCM bin_withKey fs [symmetric] by (simp add: i0)
  have c: "generateCommitMessage (sampleHost binRepo generated) ''gsk_old'' sampleState =
       ([PostMessage Loading,
         DiffIndexWithHEAD ''bin.png'',
         Fetch (groqRequest ''gsk_old'' ([nl] @ ''--- File: bin.png ---'' @ [nl])),
         PostMessage (Result ''feat: add x'')], sampleState)"
    unfolding bin_panel fs [symmetric] by simp
  show ?thesis
    using a b c forSCM_notext [of h s] panel_notext [of h key s] by blast
qed

text \<open>
  Claim C5. When the repository has neither staged nor working-tree changes, the toolbar
  flow warns "No changes detected (staged or working tree)." and the panel flow, given a
  key, posts the same text as an error; no invocation makes a diff call or a remote call.
\<close>

theorem C5_no_changes:
  assumes "getRepo h = (rs, Some repo)"
    and "indexChanges repo = []" and "workingTreeChanges repo = []"
  shows "generateCommitMessageWithKey h key s =
           (rs @ [ShowWarningMessage ''No changes detected (staged or working tree).''], s)
       \<and> (overrideActive h \<or> key \<noteq> [] \<longrightarrow>
            generateCommitMessage h key s =
              (rs @ [PostMessage (ErrorMessage ''No changes detected (staged or working tree).'')], s))
       \<and> diffCalls (fst (generateCommitMessageForSCM h s)) = []
       \<and> remoteCalls (fst (generateCommitMessageForSCM h s)) = []
       \<and> diffCalls (fst (generateCommitMessage h key s)) = []
       \<and> remoteCalls (fst (generateCommitMessage h key s)) = []"
proof -
  have wk: "generateCommitMessageWithKey h k s1 =
      (rs @ [ShowWarningMessage ''No changes detected (staged or working tree).''], s1)" for k s1
    using assms by (simp add: withKey_unfold)
  have calls: "diffCalls rs = []" "remoteCalls rs = []"
    using getRepo_filter [OF assms(1)] by simp_all
  have panel: "generateCommitMessage h key s =
      (if (if overrideActive h then the (overrideKey h) else key) = []
       then ([PostMessage (ErrorMessage ''Please enter a Groq API Key.'')], s)
       else (rs @ [PostMessage (ErrorMessage ''No changes detected (staged or working tree).'')], s))"
    using assms by (simp add: panel_unfold)
  have p1: "overrideActive h \<or> key \<noteq> [] \<longrightarrow>
            generateCommitMessage h key s =
              (rs @ [PostMessage (ErrorMessage ''No changes detected (staged or working tree).'')], s)"
    using finalKey_nonempty [of h key] by (simp add: panel)
  have p2: "diffCalls (fst (generateCommitMessage h key s)) = []"
    by (simp add: panel calls calls_simps)
  have p3: "remoteCalls (fst (generateCommitMessage h key s)) = []"
    by (simp add: panel calls calls_simps)
  have t2: "diffCalls (fst (generateCommitMessageForSCM h s)) = []"
    by (rule forSCM_diffCalls) (simp add: wk calls calls_simps)
  have t3: "remoteCalls (fst (generateCommitMessageForSCM h s)) = []"
    by (rule forSCM_remoteCalls) (simp add: wk calls calls_simps)
  show ?thesis using wk p1 p2 p3 t2 t3 by blast
qed

text \<open>
  The sample repository without changes.
\<close>

theorem C5_no_changes_witness:
  "getRepo (sampleHost emptyRepo generated) = ([], Some emptyRepo)
   \<and> indexChanges emptyRepo = [] \<and> workingTreeChanges emptyRepo = []
   \<and> generateCommitMessageWithKey (sampleHost emptyRepo generated) ''gsk_old'' sampleState =
       ([ShowWarningMessage ''No changes detected (staged or working tree).''], sampleState)
   \<and> generateCommitMessage (sampleHost emptyRepo generated) ''gsk_old'' sampleState =
       ([PostMessage (ErrorMessage ''No changes detected (staged or working tree).'')],
        sampleState)
   \<and> diffCalls (fst (generateCommitMessageForSCM (sampleHost emptyRepo generated) sampleState))
       = []
   \<and> remoteCalls (fst (generateCommitMessageForSCM (sampleHost emptyRepo generated) sampleState))
       = []"
proof -
  have h1: "getRepo (sampleHost emptyRepo generated) = ([], Some emptyRepo)"
    by (rule sample_getRepo)
  have h2: "indexChanges emptyRepo = []" and h3: "workingTreeChanges emptyRepo = []"
    by (simp_all add: emptyRepo_def)
  have key: "''gsk_old'' \<noteq> []" by simp
  note T = C5_no_changes [OF h1 h2 h3, of "''gsk_old''" sampleState]
  have c1: "generateCommitMessageWithKey (sampleHost emptyRepo generated) ''gsk_old'' sampleState =
       ([ShowWarningMessage ''No changes detected (staged or working tree).''], sampleState)"
    using T by simp
  have c2: "generateCommitMessage (sampleHost emptyRepo generated) ''gsk_old'' sampleState =
       ([PostMessage (ErrorMessage ''No changes detected (staged or working tree).'')],
        sampleState)"
    using T key by simp
  show ?thesis
    using T h1 h2 h3 c1 c2 by blast
qed

text \<open>
  Claim C6. When every diff succeeds, the loop calls the diff operation once per change
  in the order of the list, and the aggregate is the concatenation, in that order, of
  a line feed, "--- File: <path> ---", a line feed and the diff of the file. For a staged
  list \<open>[a.ts]\<close> whose diff is "+x" the aggregate is exactly
  "\<newline>--- File: a.ts ---\<newline>+x", and a response whose content is " feat: add x " gives
  the result "feat: add x" in the input box (toolbar) and in the result post (panel).
\<close>

theorem C6_aggregation:
  "((\<forall>p \<in> set changes. diffOp repo isStaged p \<noteq> None) \<longrightarrow>
      collectDiffs repo isStaged changes acc =
        (map (diffEvent isStaged) changes,
         Some (acc @ concat (map (\<lambda>p. [nl] @ ''--- File: '' @ p @ '' ---'' @ [nl] @
                                       the (diffOp repo isStaged p)) changes))))
   \<and> (getRepo h = (rs, Some repo) \<and> indexChanges repo = [''a.ts''] \<and>
      diffIndexWithHEAD repo ''a.ts'' = Some ''+x'' \<and>
      fetch h (groqRequest key ([nl] @ ''--- File: a.ts ---'' @ [nl] @ ''+x'')) = Some r \<and>
      ok r \<and>
      body r = Some (JObj [(''choices'',
                 JArr [JObj [(''message'', JObj [(''content'', JStr '' feat: add x '')])]])]) \<longrightarrow>
        collectDiffs repo True (indexChanges repo) [] =
          ([DiffIndexWithHEAD ''a.ts''], Some ([nl] @ ''--- File: a.ts ---'' @ [nl] @ ''+x''))
      \<and> snd (callGroq h key ([nl] @ ''--- File: a.ts ---'' @ [nl] @ ''+x'')) =
          Inr ''feat: add x''
      \<and> remoteCalls (fst (generateCommitMessageWithKey h key s)) =
          [Fetch (groqRequest key ([nl] @ ''--- File: a.ts ---'' @ [nl] @ ''+x''))]
      \<and> inputBoxValue (snd (generateCommitMessageWithKey h key s)) = ''feat: add x''
      \<and> ((if overrideActive h then the (overrideKey h) else key) = key \<and> key \<noteq> [] \<longrightarrow>
           generateCommitMessage h key s =
             (rs @
              [PostMessage Loading, DiffIndexWithHEAD ''a.ts'',
               Fetch (groqRequest key ([nl] @ ''--- File: a.ts ---'' @ [nl] @ ''+x'')),
               PostMessage (Result ''feat: add x'')], s)))"
proof -
  have a: "collectDiffs repo isStaged changes acc =
        (map (diffEvent isStaged) changes,
         Some (acc @ concat (map (\<lambda>p. [nl] @ ''--- File: '' @ p @ '' ---'' @ [nl] @
                                       the (diffOp repo isStaged p)) changes)))"
    if "\<forall>p \<in> set changes. diffOp repo isStaged p \<noteq> None"
    using collectDiffs_all [OF that, of acc] by (simp add: fileSection_def)
  have b: "collectDiffs repo True (indexChanges repo) [] =
          ([DiffIndexWithHEAD ''a.ts''], Some ([nl] @ ''--- File: a.ts ---'' @ [nl] @ ''+x''))
      \<and> snd (callGroq h key ([nl] @ ''--- File: a.ts ---'' @ [nl] @ ''+x'')) =
          Inr ''feat: add x''
      \<and> remoteCalls (fst (generateCommitMessageWithKey h key s)) =
          [Fetch (groqRequest key ([nl] @ ''--- File: a.ts ---'' @ [nl] @ ''+x''))]
      \<and> inputBoxValue (snd (generateCommitMessageWithKey h key s)) = ''feat: add x''
      \<and> ((if overrideActive h then the (overrideKey h) else key) = key \<and> key \<noteq> [] \<longrightarrow>
           generateCommitMessage h key s =
             (rs @
              [PostMessage Loading, DiffIndexWithHEAD ''a.ts'',
               Fetch (groqRequest key ([nl] @ ''--- File: a.ts ---'' @ [nl] @ ''+x'')),
               PostMessage (Result ''feat: add x'')], s))"
    if g: "getRepo h = (rs, Some repo)" and i: "indexChanges repo = [''a.ts'']"
      and d: "diffIndexWithHEAD repo ''a.ts'' = Some ''+x''"
      and f: "fetch h (groqRequest key ([nl] @ ''--- File: a.ts ---'' @ [nl] @ ''+x'')) = Some r"
      and o: "ok r"
      and bd: "body r = Some (JObj [(''choices'',
                 JArr [JObj [(''message'', JObj [(''content'', JStr '' feat: add x '')])]])])"
  proof -
    let ?d = "[nl] @ ''--- File: a.ts ---'' @ [nl] @ ''+x''"
    have cd: "collectDiffs repo True [''a.ts''] [] = ([DiffIndexWithHEAD ''a.ts''], Some ?d)"
      using d by simp
    have nb: "trim ?d \<noteq> []"
      using trim_fileSection [of "[]" "''a.ts''" "''+x''"] by (simp add: fileSection_def)
    have hr: "handleResponse h r = Inr ''feat: add x''"
      using o bd by (rule okResponse_generated)
    have at: "attempted (diffOp repo True) [''a.ts''] = [''a.ts'']"
      using d by (simp add: diffOp_simps)
    have cg: "snd (callGroq h key ?d) = Inr ''feat: add x''"
      using f hr by (simp add: callGroq_def)
    have wk: "generateCommitMessageWithKey h key s =
       (rs @
            [SetContext ''diffDraft.isGenerating'' (CBool True),
             SetContext ''diffDraft.generatingIcon'' (CNum (int (iconIndex s)))] @
            [DiffIndexWithHEAD ''a.ts''] @
            [Fetch (groqRequest key ?d),
            SetContext ''diffDraft.isGenerating'' (CBool False),
            SetContext ''diffDraft.generatingIcon'' (CNum (- 1)),
            SetContext ''diffDraft.isSuccess'' (CBool True),
            SetTimeout 2000 (SetContext ''diffDraft.isSuccess'' (CBool False))] @
            resetGenerating,
            s\<lparr>iconIndex := (iconIndex s + 1) mod 5, inputBoxValue := ''feat: add x''\<rparr>)"
      using i cd at scmGenerate_run [OF f nb] hr
      by (simp add: withKey_unfold [OF g] Let_def diffOp_simps)
    have pn: "generateCommitMessage h key s =
             (rs @
              [PostMessage Loading, DiffIndexWithHEAD ''a.ts'',
               Fetch (groqRequest key ?d),
               PostMessage (Result ''feat: add x'')], s)"
      if "(if overrideActive h then the (overrideKey h) else key) = key" "key \<noteq> []"
      using i cd at panelGenerate_run [OF f nb] hr that
      by (simp add: panel_unfold [OF g] Let_def diffOp_simps)
    have rc: "remoteCalls (fst (generateCommitMessageWithKey h key s)) = [Fetch (groqRequest key ?d)]"
      using getRepo_filter [OF g] by (simp add: wk calls_simps)
    show ?thesis
      using cd cg rc pn by (simp add: i wk)
  qed
  show ?thesis using a b by blast
qed

text \<open>
  Two working-tree files aggregated in order, and the scenario of the staged file at the sample host.
\<close>

theorem C6_aggregation_witness:
  "list_all (\<lambda>p. diffOp sampleRepo False p \<noteq> None) [''b.ts'', ''c.ts'']
   \<and> collectDiffs sampleRepo False [''b.ts'', ''c.ts''] [] =
       ([DiffWithHEAD ''b.ts'', DiffWithHEAD ''c.ts''],
        Some ([nl] @ ''--- File: b.ts ---'' @ [nl] @ ''-y'' @
              [nl] @ ''--- File: c.ts ---'' @ [nl] @ ''-y''))
   \<and> getRepo (sampleHost sampleRepo generated) = ([], Some sampleRepo)
   \<and> indexChanges sampleRepo = [''a.ts'']
   \<and> diffIndexWithHEAD sampleRepo ''a.ts'' = Some ''+x''
   \<and> ok generated
   \<and> collectDiffs sampleRepo True (indexChanges sampleRepo) [] =
       ([DiffIndexWithHEAD ''a.ts''], Some ([nl] @ ''--- File: a.ts ---'' @ [nl] @ ''+x''))
   \<and> snd (callGroq (sampleHost sampleRepo generated) ''gsk_old''
             ([nl] @ ''--- File: a.ts ---'' @ [nl] @ ''+x'')) = Inr ''feat: add x''
   \<and> remoteCalls (fst (generateCommitMessageWithKey (sampleHost sampleRepo generated) ''gsk_old''
                         sampleState)) =
       [Fetch (groqRequest ''gsk_old'' ([nl] @ ''--- File: a.ts ---'' @ [nl] @ ''+x''))]
   \<and> inputBoxValue (snd (generateCommitMessageWithKey (sampleHost sampleRepo generated)
                            ''gsk_old'' sampleState)) = ''feat: add x''
   \<and> generateCommitMessage (sampleHost sampleRepo generated) ''gsk_old'' sampleState =
       ([PostMessage Loading, DiffIndexWithHEAD ''a.ts'',
         Fetch (groqRequest ''gsk_old'' ([nl] @ ''--- File: a.ts ---'' @ [nl] @ ''+x'')),
         PostMessage (Result ''feat: add x'')], sampleState)"
proof -
  have a: "\<forall>p \<in> set [''b.ts'', ''c.ts'']. diffOp sampleRepo False p \<noteq> None"
    by (simp add: sample_diffWith)
  note T1 = C6_aggregation [of "[''b.ts'', ''c.ts'']" sampleRepo False "[]", THEN conjunct1]
  have c1: "collectDiffs sampleRepo False [''b.ts'', ''c.ts''] [] =
       ([DiffWithHEAD ''b.ts'', DiffWithHEAD ''c.ts''],
        Some ([nl] @ ''--- File: b.ts ---'' @ [nl] @ ''-y'' @
              [nl] @ ''--- File: c.ts ---'' @ [nl] @ ''-y''))"
    using T1 a by (simp add: sample_diffWithHEAD diffOp_simps del: collectDiffs.simps)
  have h1: "getRepo (sampleHost sampleRepo generated) = ([], Some sampleRepo)"
    by (rule sample_getRepo)
  have h2: "indexChanges sampleRepo = [''a.ts'']"
    and h3: "diffIndexWithHEAD sampleRepo ''a.ts'' = Some ''+x''"
    by (simp_all add: sampleRepo_def)
  have h4: "fetch (sampleHost sampleRepo generated)
      (groqRequest ''gsk_old'' ([nl] @ ''--- File: a.ts ---'' @ [nl] @ ''+x'')) = Some generated"
    by (rule sample_fetch)
  have h5: "ok generated" by (simp add: ok_def generated_def)
  have h6: "body generated = Some (JObj [(''choices'',
                 JArr [JObj [(''message'', JObj [(''content'', JStr '' feat: add x '')])]])])"
    by (simp add: generated_def)
  have key: "(if overrideActive (sampleHost sampleRepo generated)
              then the (overrideKey (sampleHost sampleRepo generated)) else ''gsk_old'') = ''gsk_old''
             \<and> ''gsk_old'' \<noteq> []"
    by (simp add: sample_override)
  note T2 = C6_aggregation [where h = "sampleHost sampleRepo generated" and rs = "[]"
      and repo = sampleRepo and key = "''gsk_old''" and r = generated and s = sampleState,
      THEN conjunct2]
  have c2: "collectDiffs sampleRepo True (indexChanges sampleRepo) [] =
       ([DiffIndexWithHEAD ''a.ts''], Some ([nl] @ ''--- File: a.ts ---'' @ [nl] @ ''+x''))
   \<and> snd (callGroq (sampleHost sampleRepo generated) ''gsk_old''
             ([nl] @ ''--- File: a.ts ---'' @ [nl] @ ''+x'')) = Inr ''feat: add x''
   \<and> remoteCalls (fst (generateCommitMessageWithKey (sampleHost sampleRepo generated) ''gsk_old''
                         sampleState)) =
       [Fetch (groqRequest ''gsk_old'' ([nl] @ ''--- File: a.ts ---'' @ [nl] @ ''+x''))]
   \<and> inputBoxValue (snd (generateCommitMessageWithKey (sampleHost sampleRepo generated)
                            ''gsk_old'' sampleState)) = ''feat: add x''
   \<and> generateCommitMessage (sampleHost sampleRepo generated) ''gsk_old'' sampleState =
       ([] @ [PostMessage Loading, DiffIndexWithHEAD ''a.ts'',
         Fetch (groqRequest ''gsk_old'' ([nl] @ ''--- File: a.ts ---'' @ [nl] @ ''+x'')),
         PostMessage (Result ''feat: add x'')], sampleState)"
    using T2 h1 h2 h3 h4 h5 h6 key by blast
  have la: "list_all (\<lambda>p. diffOp sampleRepo False p \<noteq> None) [''b.ts'', ''c.ts'']"
    using a by (simp add: list_all_iff)
  show ?thesis
    using la c1 h1 h2 h3 h5 c2 by (simp del: collectDiffs.simps)
qed

text \<open>
  Claim C7. When the diff of some file of the selected change set rejects, the loop stops
  at the first such file, the flow reports "Error reading git diffs." and ends: the
  invocation makes no remote call, so no partial aggregate is sent.
\<close>

theorem C7_diff_failure_aborts:
  assumes "getRepo h = (rs, Some repo)"
    and "changes = (if indexChanges repo = [] then workingTreeChanges repo else indexChanges repo)"
    and "isStaged = (indexChanges repo \<noteq> [])"
    and "path \<in> set changes" and "diffOp repo isStaged path = None"
  shows "generateCommitMessageWithKey h key s =
           (rs @
            [SetContext ''diffDraft.isGenerating'' (CBool True),
             SetContext ''diffDraft.generatingIcon'' (CNum (int (iconIndex s)))] @
            map (diffEvent isStaged) (attempted (diffOp repo isStaged) changes) @
            [ShowErrorMessage ''Error reading git diffs.''] @ resetGenerating,
            s\<lparr>iconIndex := (iconIndex s + 1) mod 5\<rparr>)
       \<and> (overrideActive h \<or> key \<noteq> [] \<longrightarrow>
            generateCommitMessage h key s =
              (rs @ [PostMessage Loading] @
               map (diffEvent isStaged) (attempted (diffOp repo isStaged) changes) @
               [PostMessage (ErrorMessage ''Error reading git diffs.'')], s))
       \<and> diffOp repo isStaged (last (attempted (diffOp repo isStaged) changes)) = None
       \<and> remoteCalls (fst (generateCommitMessageForSCM h s)) = []
       \<and> remoteCalls (fst (generateCommitMessage h key s)) = []"
proof -
  have ne: "changes \<noteq> []" using assms(4) by auto
  have fail: "snd (collectDiffs repo isStaged changes []) = None"
    using assms(4,5) by (auto simp: collectDiffs_None_iff)
  have calls: "diffCalls rs = []" "remoteCalls rs = []"
    using getRepo_filter [OF assms(1)] by simp_all
  have wk: "generateCommitMessageWithKey h k s1 =
           (rs @
            [SetContext ''diffDraft.isGenerating'' (CBool True),
             SetContext ''diffDraft.generatingIcon'' (CNum (int (iconIndex s1)))] @
            map (diffEvent isStaged) (attempted (diffOp repo isStaged) changes) @
            [ShowErrorMessage ''Error reading git diffs.''] @ resetGenerating,
            s1\<lparr>iconIndex := (iconIndex s1 + 1) mod 5\<rparr>)" for k s1
    using ne fail assms(2,3) by (simp add: withKey_unfold [OF assms(1)] Let_def)
  have panel: "generateCommitMessage h key s =
      (if (if overrideActive h then the (overrideKey h) else key) = []
       then ([PostMessage (ErrorMessage ''Please enter a Groq API Key.'')], s)
       else (rs @ [PostMessage Loading] @
               map (diffEvent isStaged) (attempted (diffOp repo isStaged) changes) @
               [PostMessage (ErrorMessage ''Error reading git diffs.'')], s))"
    using ne fail assms(2,3) by (simp add: panel_unfold [OF assms(1)] Let_def)
  have p1: "overrideActive h \<or> key \<noteq> [] \<longrightarrow>
            generateCommitMessage h key s =
              (rs @ [PostMessage Loading] @
               map (diffEvent isStaged) (attempted (diffOp repo isStaged) changes) @
               [PostMessage (ErrorMessage ''Error reading git diffs.'')], s)"
    using finalKey_nonempty [of h key] by (simp add: panel)
  have p3: "remoteCalls (fst (generateCommitMessage h key s)) = []"
    by (simp add: panel calls calls_simps)
  have t3: "remoteCalls (fst (generateCommitMessageForSCM h s)) = []"
    by (rule forSCM_remoteCalls) (simp add: wk calls calls_simps)
  have l: "diffOp repo isStaged (last (attempted (diffOp repo isStaged) changes)) = None"
    using assms(4,5) by (rule attempted_last)
  show ?thesis using wk p1 p3 t3 l by blast
qed

text \<open>
  The second of three staged files has no diff: the third is never asked for and nothing is sent.
\<close>

theorem C7_diff_failure_aborts_witness:
  "getRepo (sampleHost brokenRepo generated) = ([], Some brokenRepo)
   \<and> ''gone.ts'' \<in> set (indexChanges brokenRepo)
   \<and> diffOp brokenRepo True ''gone.ts'' = None
   \<and> generateCommitMessageWithKey (sampleHost brokenRepo generated) ''gsk_old'' sampleState =
       ([SetContext ''diffDraft.isGenerating'' (CBool True),
         SetContext ''diffDraft.generatingIcon'' (CNum 0),
         DiffIndexWithHEAD ''a.ts'',
         DiffIndexWithHEAD ''gone.ts'',
         ShowErrorMessage ''Error reading git diffs.'',
         SetContext ''diffDraft.isGenerating'' (CBool False),
         SetContext ''diffDraft.generatingIcon'' (CNum (- 1))],
        sampleState\<lparr>iconIndex := 1\<rparr>)
   \<and> generateCommitMessage (sampleHost brokenRepo generated) ''gsk_old'' sampleState =
       ([PostMessage Loading,
         DiffIndexWithHEAD ''a.ts'',
         DiffIndexWithHEAD ''gone.ts'',
         PostMessage (ErrorMessage ''Error reading git diffs.'')],
        sampleState)
   \<and> remoteCalls (fst (generateCommitMessageForSCM (sampleHost brokenRepo generated)
                         sampleState)) = []
   \<and> remoteCalls (fst (generateCommitMessage (sampleHost brokenRepo generated) ''gsk_old''
                         sampleState)) = []"
proof -
  have h1: "getRepo (sampleHost brokenRepo generated) = ([], Some brokenRepo)"
    by (rule sample_getRepo)
  have h2: "indexChanges brokenRepo =
      (if indexChanges brokenRepo = [] then workingTreeChanges brokenRepo
       else indexChanges brokenRepo)"
    by (simp add: brokenRepo_def)
  have h3: "True = (indexChanges brokenRepo \<noteq> [])"
    by (simp add: brokenRepo_def)
  have h4: "''gone.ts'' \<in> set (indexChanges brokenRepo)"
    by (simp add: brokenRepo_def)
  have h5: "diffOp brokenRepo True ''gone.ts'' = None"
    by (simp add: diffOp_def brokenRepo_def sampleRepo_def)
  have at: "map (diffEvent True) (attempted (diffOp brokenRepo True) (indexChanges brokenRepo)) =
      [DiffIndexWithHEAD ''a.ts'', DiffIndexWithHEAD ''gone.ts'']"
    by (simp add: diffOp_def diffEvent_def brokenRepo_def sampleRepo_def)
  have s0: "iconIndex sampleState = 0" by (simp add: sampleState_def)
  have key: "''gsk_old'' \<noteq> []" by simp
  note T = C7_diff_failure_aborts [OF h1 h2 h3 h4 h5, of "''gsk_old''" sampleState]
  have c1: "generateCommitMessageWithKey (sampleHost brokenRepo generated) ''gsk_old'' sampleState =
       ([SetContext ''diffDraft.isGenerating'' (CBool True),
         SetContext ''diffDraft.generatingIcon'' (CNum 0),
         DiffIndexWithHEAD ''a.ts'',
         DiffIndexWithHEAD ''gone.ts'',
         ShowErrorMessage ''Error reading git diffs.'',
         SetContext ''diffDraft.isGenerating'' (CBool False),
         SetContext ''diffDraft.generatingIcon'' (CNum (- 1))],
        sampleState\<lparr>iconIndex := 1\<rparr>)"
    using T unfolding at by (simp add: s0 resetGenerating_def)
  have c2: "generateCommitMessage (sampleHost brokenRepo generated) ''gsk_old'' sampleState =
       ([PostMessage Loading,
         DiffIndexWithHEAD ''a.ts'',
         DiffIndexWithHEAD ''gone.ts'',
         PostMessage (ErrorMessage ''Error reading git diffs.'')],
        sampleState)"
    using T key unfolding at by simp
  show ?thesis
    using T h1 h4 h5 c1 c2 by blast
qed

text \<open>
  Claim C8. \<open>commitChanges\<close> refuses a message that is empty or all white space before it
  looks at the repository, and it refuses when the repository has no staged change even
  if the message is fine; in both cases \<open>commit\<close> is not called (nor is any diff
  operation). Otherwise it calls \<open>commit\<close> once, with the trimmed message.
\<close>

theorem C8_commit_step:
  "((\<forall>c \<in> set message. is_ws c) \<longrightarrow>
      commitChanges h message s = ([ShowErrorMessage ''Commit message cannot be empty.''], s))
   \<and> (getRepo h = (rs, Some repo) \<and> indexChanges repo = [] \<longrightarrow>
        commitCalls (fst (commitChanges h message s)) = [] \<and>
        diffCalls (fst (commitChanges h message s)) = [] \<and>
        (\<not> (\<forall>c \<in> set message. is_ws c) \<longrightarrow>
           commitChanges h message s =
             (rs @ [ShowErrorMessage
                      ''No staged changes to commit. Please stage your changes first.''], s)))
   \<and> (getRepo h = (rs, Some repo) \<and> indexChanges repo \<noteq> [] \<and>
      \<not> (\<forall>c \<in> set message. is_ws c) \<longrightarrow>
        commitCalls (fst (commitChanges h message s)) = [Commit (trim message)] \<and>
        (commit repo (trim message) = None \<longrightarrow>
           commitChanges h message s =
             (rs @ [Commit (trim message), ShowInformationMessage ''Commit successful!'',
                    PostMessage Success], s)))"
proof -
  have a: "(\<forall>c \<in> set message. is_ws c) \<longrightarrow>
      commitChanges h message s = ([ShowErrorMessage ''Commit message cannot be empty.''], s)"
    by (simp add: commitChanges_def trim_Nil_iff)
  have b: "commitCalls (fst (commitChanges h message s)) = [] \<and>
        diffCalls (fst (commitChanges h message s)) = [] \<and>
        (\<not> (\<forall>c \<in> set message. is_ws c) \<longrightarrow>
           commitChanges h message s =
             (rs @ [ShowErrorMessage
                      ''No staged changes to commit. Please stage your changes first.''], s))"
    if g: "getRepo h = (rs, Some repo)" and i: "indexChanges repo = []"
    using getRepo_filter [OF g] i
    by (auto simp: commitChanges_unfold [OF g] commitCalls_def diffCalls_def trim_Nil_iff)
  have c: "commitCalls (fst (commitChanges h message s)) = [Commit (trim message)] \<and>
        (commit repo (trim message) = None \<longrightarrow>
           commitChanges h message s =
             (rs @ [Commit (trim message), ShowInformationMessage ''Commit successful!'',
                    PostMessage Success], s))"
    if g: "getRepo h = (rs, Some repo)" and i: "indexChanges repo \<noteq> []"
      and m: "\<not> (\<forall>c \<in> set message. is_ws c)"
  proof -
    have t: "trim message \<noteq> []" "message \<noteq> []" using m by (auto simp: trim_Nil_iff)
    show ?thesis
      using getRepo_filter [OF g] i t
      by (auto simp: commitChanges_unfold [OF g] commitCalls_def split: option.splits)
  qed
  show ?thesis using a b c by blast
qed

text \<open>
  A blank message, a good message with nothing staged, and a good message with a staged file.
\<close>

theorem C8_commit_step_witness:
  "list_all is_ws ''  ''
   \<and> commitChanges (sampleHost sampleRepo generated) ''  '' sampleState =
       ([ShowErrorMessage ''Commit message cannot be empty.''], sampleState)
   \<and> getRepo (sampleHost emptyRepo generated) = ([], Some emptyRepo)
   \<and> indexChanges emptyRepo = []
   \<and> \<not> (\<forall>c \<in> set '' fix: y ''. is_ws c)
   \<and> commitCalls (fst (commitChanges (sampleHost emptyRepo generated) '' fix: y '' sampleState))
       = []
   \<and> commitChanges (sampleHost emptyRepo generated) '' fix: y '' sampleState =
       ([ShowErrorMessage ''No staged changes to commit. Please stage your changes first.''],
        sampleState)
   \<and> getRepo (sampleHost sampleRepo generated) = ([], Some sampleRepo)
   \<and> indexChanges sampleRepo \<noteq> []
   \<and> commit sampleRepo ''fix: y'' = None
   \<and> commitCalls (fst (commitChanges (sampleHost sampleRepo generated) '' fix: y '' sampleState))
       = [Commit ''fix: y'']
   \<and> commitChanges (sampleHost sampleRepo generated) '' fix: y '' sampleState =
       ([Commit ''fix: y'', ShowInformationMessage ''Commit successful!'', PostMessage Success],
        sampleState)"
proof -
  have h1: "getRepo (sampleHost emptyRepo generated) = ([], Some emptyRepo)"
    by (rule sample_getRepo)
  have h2: "indexChanges emptyRepo = []" by (simp add: emptyRepo_def)
  have h3: "getRepo (sampleHost sampleRepo generated) = ([], Some sampleRepo)"
    by (rule sample_getRepo)
  have h4: "indexChanges sampleRepo \<noteq> []" by (simp add: sampleRepo_def)
  have h5: "commit sampleRepo ''fix: y'' = None" by (simp add: sampleRepo_def)
  have h5': "commit sampleRepo (trim '' fix: y '') = None" by (simp add: sampleRepo_def)
  note Ta = C8_commit_step [where message = "''  ''" and h = "sampleHost sampleRepo generated"
      and s = sampleState, THEN conjunct1]
  note Tb = C8_commit_step [where message = "'' fix: y ''" and h = "sampleHost emptyRepo generated"
      and s = sampleState and rs = "[]" and repo = emptyRepo, THEN conjunct2, THEN conjunct1]
  note Tc = C8_commit_step [where message = "'' fix: y ''" and h = "sampleHost sampleRepo generated"
      and s = sampleState and rs = "[]" and repo = sampleRepo, THEN conjunct2, THEN conjunct2]
  have c1: "commitChanges (sampleHost sampleRepo generated) ''  '' sampleState =
       ([ShowErrorMessage ''Commit message cannot be empty.''], sampleState)"
    using Ta blank_message by blast
  have c2: "commitCalls (fst (commitChanges (sampleHost emptyRepo generated) '' fix: y '' sampleState))
       = []"
    using Tb h1 h2 by blast
  have c3: "commitChanges (sampleHost emptyRepo generated) '' fix: y '' sampleState =
       ([] @ [ShowErrorMessage ''No staged changes to commit. Please stage your changes first.''],
        sampleState)"
    using Tb h1 h2 nonblank_fix by blast
  have c4: "commitCalls (fst (commitChanges (sampleHost sampleRepo generated) '' fix: y '' sampleState))
       = [Commit (trim '' fix: y '')]"
    using Tc h3 h4 nonblank_fix by blast
  have c5: "commitChanges (sampleHost sampleRepo generated) '' fix: y '' sampleState =
       ([] @ [Commit (trim '' fix: y ''), ShowInformationMessage ''Commit successful!'',
              PostMessage Success], sampleState)"
    using Tc h3 h4 h5' nonblank_fix by blast
  have la: "list_all is_ws ''  ''"
    using blank_message by (simp add: list_all_iff)
  show ?thesis
    using la c1 h1 h2 nonblank_fix c2 c3 h3 h4 h5 c4 c5
    by (simp add: trim_fix)
qed

text \<open>
  Claim C9. The override is read from the environment of the invocation and nothing of it
  is kept in the state. When it is not blank, the toolbar flow behaves as
  \<open>generateCommitMessageWithKey\<close> on the override whatever is stored, without input box
  and without storing, and the panel flow behaves the same for every entered key. When
  the diffs of the selected changes are read, each flow sends exactly one request and
  its bearer credential is the override; no request of either flow carries another key.
\<close>

theorem C9_override_precedence:
  assumes "overrideKey h = Some ov" and "\<not> (\<forall>c \<in> set ov. is_ws c)"
  shows "generateCommitMessageForSCM h s = generateCommitMessageWithKey h ov s
       \<and> generateCommitMessage h key s = generateCommitMessage h ov s
       \<and> (Fetch q \<in> set (fst (generateCommitMessageForSCM h s)) \<union>
                    set (fst (generateCommitMessage h key s)) \<longrightarrow>
            authorization q = ''Bearer '' @ ov)
       \<and> ShowInputBox \<notin> set (fst (generateCommitMessageForSCM h s))
       \<and> SecretStore v \<notin> set (fst (generateCommitMessageForSCM h s))
       \<and> (getRepo h = (rs, Some repo) \<and>
          changes = (if indexChanges repo = [] then workingTreeChanges repo
                     else indexChanges repo) \<and>
          changes \<noteq> [] \<and>
          collectDiffs repo (indexChanges repo \<noteq> []) changes [] = (ds, Some fullDiff) \<longrightarrow>
            remoteCalls (fst (generateCommitMessageForSCM h s)) =
              [Fetch (groqRequest ov fullDiff)] \<and>
            remoteCalls (fst (generateCommitMessage h key s)) =
              [Fetch (groqRequest ov fullDiff)] \<and>
            generateCommitMessage h key s =
              (rs @ [PostMessage Loading] @ ds @ panelGenerate h ov fullDiff, s))"
proof -
  have act: "overrideActive h"
    using assms by (simp add: overrideActive_def trim_Nil_iff)
  have ne: "ov \<noteq> []"
    using assms(2) by auto
  have a: "generateCommitMessageForSCM h s = generateCommitMessageWithKey h ov s"
    using act assms(1) ne by (simp add: generateCommitMessageForSCM_def Let_def)
  have b: "generateCommitMessage h k s = generateCommitMessage h ov s" for k
    using act assms(1) by (simp add: generateCommitMessage_def Let_def)
  have c: "authorization q = ''Bearer '' @ ov"
    if "Fetch q \<in> set (fst (generateCommitMessageForSCM h s))"
    using that withKey_remoteCalls [of h ov s]
    by (auto simp: a Fetch_in_remoteCalls [of q "fst (generateCommitMessageWithKey h ov s)"]
          authorization_groqRequest)
  have d: "authorization q = ''Bearer '' @ ov"
    if "Fetch q \<in> set (fst (generateCommitMessage h key s))"
    using that panel_remoteCalls [of h key s] act assms(1)
    by (auto simp: Fetch_in_remoteCalls [of q "fst (generateCommitMessage h key s)"]
          authorization_groqRequest)
  have e: "ShowInputBox \<notin> set (fst (generateCommitMessageForSCM h s))"
    "SecretStore v \<notin> set (fst (generateCommitMessageForSCM h s))"
    using withKey_quiet [of _ h ov s v] by (auto simp: a)
  have fk: "(if overrideActive h then the (overrideKey h) else key) = ov"
    using act assms(1) by simp
  have f: "remoteCalls (fst (generateCommitMessageForSCM h s)) =
              [Fetch (groqRequest ov fullDiff)] \<and>
            remoteCalls (fst (generateCommitMessage h key s)) =
              [Fetch (groqRequest ov fullDiff)] \<and>
            generateCommitMessage h key s =
              (rs @ [PostMessage Loading] @ ds @ panelGenerate h ov fullDiff, s)"
    if g: "getRepo h = (rs, Some repo)"
      and cs: "changes = (if indexChanges repo = [] then workingTreeChanges repo
                     else indexChanges repo)"
      and cn: "changes \<noteq> []"
      and cd: "collectDiffs repo (indexChanges repo \<noteq> []) changes [] = (ds, Some fullDiff)"
  proof -
    have f1: "remoteCalls (fst (generateCommitMessageForSCM h s)) =
              [Fetch (groqRequest ov fullDiff)]"
      unfolding a using g cs cn cd by (rule withKey_remoteCalls_run)
    have f2: "remoteCalls (fst (generateCommitMessage h key s)) =
              [Fetch (groqRequest ov fullDiff)]"
      using g cs cn cd fk ne by (rule panel_remoteCalls_run)
    have dsq: "map (diffEvent (indexChanges repo \<noteq> []))
              (attempted (diffOp repo (indexChanges repo \<noteq> [])) changes) = ds"
      using collectDiffs_calls [of repo "indexChanges repo \<noteq> []" changes "[]"] cd by simp
    have sn: "snd (collectDiffs repo (indexChanges repo \<noteq> []) changes []) = Some fullDiff"
      using cd by simp
    have f3: "generateCommitMessage h key s =
              (rs @ [PostMessage Loading] @ ds @ panelGenerate h ov fullDiff, s)"
      using cn sn dsq ne
      by (simp add: panel_unfold [OF g] cs [symmetric] fk Let_def)
    show ?thesis using f1 f2 f3 by blast
  qed
  have F: "getRepo h = (rs, Some repo) \<and>
          changes = (if indexChanges repo = [] then workingTreeChanges repo
                     else indexChanges repo) \<and>
          changes \<noteq> [] \<and>
          collectDiffs repo (indexChanges repo \<noteq> []) changes [] = (ds, Some fullDiff) \<longrightarrow>
            remoteCalls (fst (generateCommitMessageForSCM h s)) =
              [Fetch (groqRequest ov fullDiff)] \<and>
            remoteCalls (fst (generateCommitMessage h key s)) =
              [Fetch (groqRequest ov fullDiff)] \<and>
            generateCommitMessage h key s =
              (rs @ [PostMessage Loading] @ ds @ panelGenerate h ov fullDiff, s)"
    using f by blast
  have CD: "Fetch q \<in> set (fst (generateCommitMessageForSCM h s)) \<union>
                    set (fst (generateCommitMessage h key s)) \<longrightarrow>
            authorization q = ''Bearer '' @ ov"
    using c d by blast
  show ?thesis
    by (intro conjI a b CD e F)
qed

text \<open>
  An override in the environment while another key is stored and a third is typed: both
  flows send the override.
\<close>

theorem C9_override_precedence_witness:
  "overrideKey overrideHost = Some ''gsk_env''
   \<and> \<not> (\<forall>c \<in> set ''gsk_env''. is_ws c)
   \<and> secret sampleState = Some ''gsk_old''
   \<and> getRepo overrideHost = ([], Some sampleRepo)
   \<and> collectDiffs sampleRepo (indexChanges sampleRepo \<noteq> []) [''a.ts''] [] =
       ([DiffIndexWithHEAD ''a.ts''], Some (fileSection ''a.ts'' ''+x''))
   \<and> generateCommitMessageForSCM overrideHost sampleState =
       generateCommitMessageWithKey overrideHost ''gsk_env'' sampleState
   \<and> remoteCalls (fst (generateCommitMessageForSCM overrideHost sampleState)) =
       [Fetch (groqRequest ''gsk_env'' (fileSection ''a.ts'' ''+x''))]
   \<and> remoteCalls (fst (generateCommitMessage overrideHost ''gsk_typed'' sampleState)) =
       [Fetch (groqRequest ''gsk_env'' (fileSection ''a.ts'' ''+x''))]
   \<and> generateCommitMessage overrideHost ''gsk_typed'' sampleState =
       ([PostMessage Loading, DiffIndexWithHEAD ''a.ts'',
         Fetch (groqRequest ''gsk_env'' (fileSection ''a.ts'' ''+x'')),
         PostMessage (Result ''feat: add x'')], sampleState)
   \<and> Fetch (groqRequest ''gsk_env'' (fileSection ''a.ts'' ''+x'')) \<in>
       set (fst (generateCommitMessage overrideHost ''gsk_typed'' sampleState))
   \<and> authorization (groqRequest ''gsk_env'' (fileSection ''a.ts'' ''+x'')) = ''Bearer gsk_env''
   \<and> ShowInputBox \<notin> set (fst (generateCommitMessageForSCM overrideHost sampleState))"
proof -
  have h1: "overrideKey overrideHost = Some ''gsk_env''"
    by (simp add: overrideHost_def)
  have s0: "secret sampleState = Some ''gsk_old''"
    by (simp add: sampleState_def)
  have cs: "[''a.ts''] = (if indexChanges sampleRepo = [] then workingTreeChanges sampleRepo
                          else indexChanges sampleRepo)"
    by (simp add: sample_changes)
  have cn: "[''a.ts''] \<noteq> []" by simp
  have cd: "collectDiffs sampleRepo (indexChanges sampleRepo \<noteq> []) [''a.ts''] [] =
       ([DiffIndexWithHEAD ''a.ts''], Some (fileSection ''a.ts'' ''+x''))"
    by (simp add: sample_changes sample_collect del: collectDiffs.simps)
  note T = C9_override_precedence [OF h1 nonblank_env, where s = sampleState
      and key = "''gsk_typed''" and q = "groqRequest ''gsk_env'' (fileSection ''a.ts'' ''+x'')"
      and rs = "[]" and repo = sampleRepo and changes = "[''a.ts'']"
      and ds = "[DiffIndexWithHEAD ''a.ts'']" and fullDiff = "fileSection ''a.ts'' ''+x''"]
  have e: "generateCommitMessageForSCM overrideHost sampleState =
       generateCommitMessageWithKey overrideHost ''gsk_env'' sampleState"
    using T by blast
  have r1: "remoteCalls (fst (generateCommitMessageForSCM overrideHost sampleState)) =
       [Fetch (groqRequest ''gsk_env'' (fileSection ''a.ts'' ''+x''))]"
    using T override_getRepo cs cn cd by blast
  have r2: "remoteCalls (fst (generateCommitMessage overrideHost ''gsk_typed'' sampleState)) =
       [Fetch (groqRequest ''gsk_env'' (fileSection ''a.ts'' ''+x''))]"
    using T override_getRepo cs cn cd by blast
  have p: "generateCommitMessage overrideHost ''gsk_typed'' sampleState =
       ([PostMessage Loading, DiffIndexWithHEAD ''a.ts'',
         Fetch (groqRequest ''gsk_env'' (fileSection ''a.ts'' ''+x'')),
         PostMessage (Result ''feat: add x'')], sampleState)"
    by (rule override_panel_run)
  have m: "Fetch (groqRequest ''gsk_env'' (fileSection ''a.ts'' ''+x'')) \<in>
       set (fst (generateCommitMessage overrideHost ''gsk_typed'' sampleState))"
    by (simp add: p)
  have au: "authorization (groqRequest ''gsk_env'' (fileSection ''a.ts'' ''+x'')) = ''Bearer gsk_env''"
    using T m by simp
  have q: "ShowInputBox \<notin> set (fst (generateCommitMessageForSCM overrideHost sampleState))"
    using T by blast
  show ?thesis
    by (intro conjI h1 nonblank_env s0 override_getRepo cd e r1 r2 p m au q)
qed

text \<open>
  Claim C10. \<open>storeApiKey\<close> does nothing for a key that is blank, and otherwise writes
  the trimmed key, which is trimmed and not empty; these are the only writes that any
  entry point makes. \<open>getStoredApiKey\<close> gives nothing when the read fails or the stored
  value is blank, and what it gives is trimmed and not empty.
\<close>

theorem C10_stored_key_trimmed:
  "((\<forall>c \<in> set key. is_ws c) \<longrightarrow> storeApiKey h key s = ([], s))
   \<and> (SecretStore v \<in> set (fst (storeApiKey h key s)) \<longrightarrow>
        v = trim key \<and> trim v = v \<and> v \<noteq> [] \<and> \<not> (\<forall>c \<in> set v. is_ws c))
   \<and> (secret (snd (storeApiKey h key s)) = secret s \<or>
        (secret (snd (storeApiKey h key s)) = Some (trim key) \<and> trim key \<noteq> [] \<and>
         fst (storeApiKey h key s) = [SecretStore (trim key)]))
   \<and> (SecretStore v \<in> set (fst (generateCommitMessageForSCM h s)) \<union>
                       set (fst (generateCommitMessage h key s)) \<union>
                       set (fst (commitChanges h key s)) \<longrightarrow>
        trim v = v \<and> v \<noteq> [])
   \<and> (secret (snd (generateCommitMessageForSCM h s)) = secret s \<or>
        (\<exists>w. secret (snd (generateCommitMessageForSCM h s)) = Some w \<and> trim w = w \<and> w \<noteq> []))
   \<and> secret (snd (generateCommitMessage h key s)) = secret s
   \<and> secret (snd (commitChanges h key s)) = secret s
   \<and> (secretGetFails h \<longrightarrow> getStoredApiKey h s = None)
   \<and> (secret s = Some k \<and> (\<forall>c \<in> set k. is_ws c) \<longrightarrow> getStoredApiKey h s = None)
   \<and> (getStoredApiKey h s = Some k \<longrightarrow>
        \<not> secretGetFails h \<and> k \<noteq> [] \<and> trim k = k \<and> (\<exists>raw. secret s = Some raw \<and> k = trim raw))"
proof -
  have a: "(\<forall>c \<in> set key. is_ws c) \<longrightarrow> storeApiKey h key s = ([], s)"
    by (simp add: storeApiKey_def Let_def trim_Nil_iff)
  have b: "SecretStore v \<in> set (fst (storeApiKey h key s)) \<longrightarrow>
        v = trim key \<and> trim v = v \<and> v \<noteq> [] \<and> \<not> (\<forall>c \<in> set v. is_ws c)"
    using storeApiKey_written [of v h key s] trim_Nil_iff [of v] by auto
  have c: "SecretStore v \<in> set (fst (generateCommitMessageForSCM h s)) \<union>
                       set (fst (generateCommitMessage h key s)) \<union>
                       set (fst (commitChanges h key s)) \<longrightarrow>
        trim v = v \<and> v \<noteq> []"
    using forSCM_written [of v h s] panel_quiet [of "SecretStore v" h key s v]
      commit_quiet [of "SecretStore v" h key s v] by blast
  have d: "secretGetFails h \<longrightarrow> getStoredApiKey h s = None"
    by (simp add: getStoredApiKey_def)
  have e: "secret s = Some k \<and> (\<forall>c \<in> set k. is_ws c) \<longrightarrow> getStoredApiKey h s = None"
    by (auto simp: getStoredApiKey_def trim_Nil_iff)
  have f: "getStoredApiKey h s = Some k \<longrightarrow>
        \<not> secretGetFails h \<and> k \<noteq> [] \<and> trim k = k \<and> (\<exists>raw. secret s = Some raw \<and> k = trim raw)"
    by (auto simp: getStoredApiKey_def trim_idem split: if_splits option.splits)
  show ?thesis
    using a b c d e f storeApiKey_secret [of h key s] forSCM_secret [of h s]
      panel_state [of h key s] commit_state [of h key s]
    by simp
qed

text \<open>
  A blank key, a key with spaces around it, a failing read and a blank stored value.
\<close>

theorem C10_stored_key_trimmed_witness:
  "list_all is_ws ''  ''
   \<and> storeApiKey promptHost ''  '' emptyState = ([], emptyState)
   \<and> SecretStore ''gsk_new'' \<in> set (fst (storeApiKey promptHost '' gsk_new '' emptyState))
   \<and> ''gsk_new'' = trim '' gsk_new '' \<and> trim ''gsk_new'' = ''gsk_new''
   \<and> SecretStore ''gsk_new'' \<in> set (fst (generateCommitMessageForSCM promptHost emptyState))
   \<and> secretGetFails ((sampleHost sampleRepo generated)\<lparr>secretGetFails := True\<rparr>)
   \<and> getStoredApiKey ((sampleHost sampleRepo generated)\<lparr>secretGetFails := True\<rparr>) sampleState
       = None
   \<and> secret (sampleState\<lparr>secret := Some ''  ''\<rparr>) = Some ''  ''
   \<and> getStoredApiKey (sampleHost sampleRepo generated) (sampleState\<lparr>secret := Some ''  ''\<rparr>)
       = None
   \<and> getStoredApiKey (sampleHost sampleRepo generated) sampleState = Some ''gsk_old''
   \<and> trim ''gsk_old'' = ''gsk_old''"
proof -
  note T1 = C10_stored_key_trimmed [where key = "''  ''" and h = promptHost and s = emptyState]
  note T2 = C10_stored_key_trimmed [where key = "'' gsk_new ''" and h = promptHost
      and s = emptyState and v = "''gsk_new''"]
  note T3 = C10_stored_key_trimmed
      [where h = "(sampleHost sampleRepo generated)\<lparr>secretGetFails := True\<rparr>"
        and s = sampleState]
  note T4 = C10_stored_key_trimmed [where h = "sampleHost sampleRepo generated"
      and s = "sampleState\<lparr>secret := Some ''  ''\<rparr>" and k = "''  ''"]
  note T5 = C10_stored_key_trimmed [where h = "sampleHost sampleRepo generated"
      and s = sampleState and k = "''gsk_old''"]
  have c1: "storeApiKey promptHost ''  '' emptyState = ([], emptyState)"
    using T1 blank_message by blast
  have m2: "SecretStore ''gsk_new'' \<in> set (fst (storeApiKey promptHost '' gsk_new '' emptyState))"
    by (simp add: prompt_store)
  have c2: "''gsk_new'' = trim '' gsk_new '' \<and> trim ''gsk_new'' = ''gsk_new''"
    using T2 m2 by blast
  have c2': "trim ''gsk_new'' = ''gsk_new'' \<and> ''gsk_new'' \<noteq> []"
    using T2 prompt_scm by blast
  have g3: "secretGetFails ((sampleHost sampleRepo generated)\<lparr>secretGetFails := True\<rparr>)"
    by simp
  have c3: "getStoredApiKey ((sampleHost sampleRepo generated)\<lparr>secretGetFails := True\<rparr>) sampleState
       = None"
    using T3 g3 by blast
  have g4: "secret (sampleState\<lparr>secret := Some ''  ''\<rparr>) = Some ''  ''"
    by simp
  have c4: "getStoredApiKey (sampleHost sampleRepo generated) (sampleState\<lparr>secret := Some ''  ''\<rparr>)
       = None"
    using T4 g4 blank_message by blast
  have g5: "getStoredApiKey (sampleHost sampleRepo generated) sampleState = Some ''gsk_old''"
    by (rule sample_stored)
  have c5: "trim ''gsk_old'' = ''gsk_old''"
    using T5 g5 by blast
  have la: "list_all is_ws ''  ''"
    using blank_message by (simp add: list_all_iff)
  show ?thesis
    using la c1 m2 c2 prompt_scm g3 c3 g4 c4 g5 c5 by blast
qed

end
